theory Spec2Isabelle
  imports Main "HOL-Library.Word" "HOL-Library.Sublist" "HOL-Library.AList"
begin

section \<open>Strings of the JavaScript runtime\<close>

text \<open>
  A JavaScript string is a sequence of 16-bit code units.  The regular expressions of
  \<^verbatim>\<open>sanitizeFilename\<close> carry no \<^verbatim>\<open>u\<close> flag, and \<^verbatim>\<open>slice\<close> counts code
  units, so every string operation of \<^verbatim>\<open>Backend/server.js\<close> works on this list.
\<close>

type_synonym jschar = "16 word"
type_synonym jsstring = "jschar list"

definition cu :: "char \<Rightarrow> jschar" where
  "cu c = of_char c"

definition lit :: "string \<Rightarrow> jsstring" where
  "lit s = map cu s"

text \<open>
  The decimal rendering of a non-negative integer, which is what a template literal and
  \<^verbatim>\<open>toString()\<close> give for the value of \<^verbatim>\<open>Date.now()\<close>.
\<close>

fun dec :: "nat \<Rightarrow> jsstring" where
  "dec n = (if n < 10 then [cu CHR ''0'' + of_nat n]
            else dec (n div 10) @ [cu CHR ''0'' + of_nat (n mod 10)])"

declare dec.simps [simp del]

text \<open>The decimal digits, of which every rendered timestamp consists.\<close>

definition is_digit :: "jschar \<Rightarrow> bool" where
  "is_digit c \<longleftrightarrow> cu CHR ''0'' \<le> c \<and> c \<le> cu CHR ''9''"

section \<open>sanitizeFilename (server.js, lines 27--31)\<close>

text \<open>The character class \<^verbatim>\<open>[a-zA-Z0-9_.-]\<close>.\<close>

definition allowed :: "jschar \<Rightarrow> bool" where
  "allowed c \<longleftrightarrow>
     (cu CHR ''a'' \<le> c \<and> c \<le> cu CHR ''z'') \<or>
     (cu CHR ''A'' \<le> c \<and> c \<le> cu CHR ''Z'') \<or>
     (cu CHR ''0'' \<le> c \<and> c \<le> cu CHR ''9'') \<or>
     c = cu CHR ''_'' \<or> c = cu CHR ''.'' \<or> c = cu CHR ''-''"

text \<open>\<^verbatim>\<open>.replace(/[^a-zA-Z0-9_.-]/g, '_')\<close>: each code unit outside the class becomes an underscore.\<close>

definition replace_invalid :: "jsstring \<Rightarrow> jsstring" where
  "replace_invalid s = map (\<lambda>c. if allowed c then c else cu CHR ''_'') s"

text \<open>
  \<^verbatim>\<open>.replace(/_+/g, '_')\<close>: scanning from the left, each maximal run of underscores
  (the greedy match of \<^verbatim>\<open>_+\<close>) is replaced by one underscore.
\<close>

function collapse_underscores :: "jsstring \<Rightarrow> jsstring" where
  "collapse_underscores [] = []"
| "collapse_underscores (c # cs) =
     (if c = cu CHR ''_''
      then cu CHR ''_'' # collapse_underscores (dropWhile (\<lambda>d. d = cu CHR ''_'') cs)
      else c # collapse_underscores cs)"
  by pat_completeness auto
termination
  by (relation "measure length") (auto simp: length_dropWhile_le less_Suc_eq_le)

definition sanitizeFilename :: "jsstring \<Rightarrow> jsstring" where
  "sanitizeFilename filename = collapse_underscores (replace_invalid filename)"

section \<open>createMovieFolderName (server.js, lines 34--38)\<close>

text \<open>
  The value of \<^verbatim>\<open>Date.now()\<close> is an argument.  The title is sanitized first and the
  result is cut to its first 30 code units by \<^verbatim>\<open>.slice(0, 30)\<close>.
\<close>

definition createMovieFolderName :: "nat \<Rightarrow> jsstring \<Rightarrow> jsstring" where
  "createMovieFolderName timestamp title =
     (let sanitizedTitle = take 30 (sanitizeFilename title)
      in dec timestamp @ lit ''-'' @ sanitizedTitle)"

text \<open>
  The directory name in the order the specification words it: the title is capped to 30
  code units and the capped string is sanitized.  It is compared with the code below.
\<close>

definition folderName_cap_then_sanitize :: "nat \<Rightarrow> jsstring \<Rightarrow> jsstring" where
  "folderName_cap_then_sanitize timestamp title =
     dec timestamp @ lit ''-'' @ sanitizeFilename (take 30 title)"

section \<open>The filename callback of multer.diskStorage (server.js, lines 52--61)\<close>

text \<open>
  \<^verbatim>\<open>path.extname\<close> and \<^verbatim>\<open>path.basename\<close> belong to the Node.js runtime, not to
  this repository, and differ between platforms; the model takes them as parameters.
\<close>

record path_lib =
  extname :: "jsstring \<Rightarrow> jsstring"
  basename :: "jsstring \<Rightarrow> jsstring \<Rightarrow> jsstring"

definition multer_filename :: "path_lib \<Rightarrow> jsstring \<Rightarrow> nat \<Rightarrow> jsstring \<Rightarrow> jsstring" where
  "multer_filename P fileType now original =
     (let fileExt = extname P original;
          baseName = basename P original fileExt;
          sanitizedName = sanitizeFilename baseName
      in fileType @ lit ''-'' @ dec now @ lit ''-'' @ sanitizedName @ fileExt)"

section \<open>JSON values, files and the directory tree\<close>

text \<open>The values \<^verbatim>\<open>JSON.parse\<close> can return; the server never computes with a number.\<close>

datatype json =
    JNull
  | JBool bool
  | JNum int
  | JStr jsstring
  | JArr "json list"
  | JObj "(jsstring \<times> json) list"

text \<open>Property access \<^verbatim>\<open>o.k\<close> on an object built from a literal.\<close>

fun field :: "jsstring \<Rightarrow> json \<Rightarrow> json option" where
  "field k (JObj kvs) = map_of kvs k"
| "field k _ = None"

type_synonym bytes = "8 word list"

text \<open>
  What a file below \<^verbatim>\<open>uploads/\<close> holds: the bytes of an upload, the text of a URL, or
  the text \<^verbatim>\<open>JSON.stringify(v, null, 2)\<close> of a value \<open>v\<close>.
\<close>

datatype file_content = Bytes bytes | Text jsstring | JsonText json

type_synonym directory = "(jsstring \<times> file_content) list"

text \<open>
  The file \<^verbatim>\<open>movies.json\<close> as \<^verbatim>\<open>readFileSync\<close> followed by \<^verbatim>\<open>JSON.parse\<close> sees it:
  \<open>Missing\<close> when reading throws, \<open>Garbled\<close> when the text is read and parsing throws,
  \<open>Holds v\<close> when the text parses to \<open>v\<close> (as the text written by
  \<^verbatim>\<open>JSON.stringify(v, null, 2)\<close> does).
\<close>

datatype catalog_file = Missing | Garbled | Holds json

text \<open>
  The directory \<^verbatim>\<open>uploads/temp\<close>, where multer stores each upload under the name the
  filename callback returned (an empty list also stands for the directory not yet
  created: the destination callback creates it on demand); the other directories below
  \<^verbatim>\<open>uploads/\<close>, by name, each with its files by name; and \<^verbatim>\<open>movies.json\<close>.  The
  path \<^verbatim>\<open>path.join(UPLOADS_BASE_DIR, d)\<close> is the entry \<open>d\<close> of \<open>folders\<close>, and
  \<^verbatim>\<open>path.join(movieFolderPath, f)\<close> is the entry \<open>f\<close> inside it.
\<close>

record fs =
  temp :: "(jsstring \<times> bytes) list"
  folders :: "(jsstring \<times> directory) list"
  moviesFile :: catalog_file

datatype js_error = ENOENT | EEXIST | ENOTEMPTY | TypeError

definition read_file :: "fs \<Rightarrow> jsstring \<Rightarrow> jsstring \<Rightarrow> file_content option" where
  "read_file s dir name =
     (case map_of (folders s) dir of None \<Rightarrow> None | Some d \<Rightarrow> map_of d name)"

definition existsSync :: "jsstring \<Rightarrow> fs \<Rightarrow> bool" where
  "existsSync dir s = (case map_of (folders s) dir of None \<Rightarrow> False | Some d \<Rightarrow> True)"

definition mkdirSync :: "jsstring \<Rightarrow> fs \<Rightarrow> js_error + fs" where
  "mkdirSync dir s =
     (if existsSync dir s then Inl EEXIST
      else Inr (s\<lparr>folders := AList.update dir [] (folders s)\<rparr>))"

text \<open>
  \<^verbatim>\<open>fs.renameSync(file.path, path.join(movieFolderPath, file.filename))\<close>: the entry
  leaves \<^verbatim>\<open>uploads/temp\<close> and appears in the directory, replacing a file of that name.
  It throws when the source or the target directory does not exist.
\<close>

definition renameSync :: "jsstring \<Rightarrow> jsstring \<Rightarrow> fs \<Rightarrow> js_error + fs" where
  "renameSync name dir s =
     (case map_of (temp s) name of
        None \<Rightarrow> Inl ENOENT
      | Some b \<Rightarrow>
          (case map_of (folders s) dir of
             None \<Rightarrow> Inl ENOENT
           | Some d \<Rightarrow>
               Inr (s\<lparr>temp := AList.delete name (temp s),
                      folders := AList.update dir (AList.update name (Bytes b) d) (folders s)\<rparr>)))"

definition writeFileSync :: "jsstring \<Rightarrow> jsstring \<Rightarrow> file_content \<Rightarrow> fs \<Rightarrow> js_error + fs" where
  "writeFileSync dir name c s =
     (case map_of (folders s) dir of
        None \<Rightarrow> Inl ENOENT
      | Some d \<Rightarrow> Inr (s\<lparr>folders := AList.update dir (AList.update name c d) (folders s)\<rparr>))"

text \<open>
  \<^verbatim>\<open>fs.rmdirSync(path)\<close> without the \<^verbatim>\<open>recursive\<close> option is rmdir(2): it removes an
  empty directory and throws \<^verbatim>\<open>ENOTEMPTY\<close> on a directory that has an entry.
\<close>

definition rmdirSync :: "jsstring \<Rightarrow> fs \<Rightarrow> js_error + fs" where
  "rmdirSync dir s =
     (case map_of (folders s) dir of
        None \<Rightarrow> Inl ENOENT
      | Some [] \<Rightarrow> Inr (s\<lparr>folders := AList.delete dir (folders s)\<rparr>)
      | Some (e # es) \<Rightarrow> Inl ENOTEMPTY)"

section \<open>The request\<close>

text \<open>
  The request as the handler body of lines 100--218 reads it, after multer has parsed the
  multipart body: the text fields of \<^verbatim>\<open>req.body\<close> (\<open>None\<close> for a field that is absent)
  and, for each of the two slots, the file object \<^verbatim>\<open>req.files[slot][0]\<close> when
  \<^verbatim>\<open>req.files[slot]\<close> exists and is not empty (\<open>None\<close> otherwise; \<^verbatim>\<open>maxCount: 1\<close> admits
  one file per slot).  Of a file object the code reads \<^verbatim>\<open>fieldname\<close> and
  \<^verbatim>\<open>originalname\<close> in the filename callback and \<^verbatim>\<open>filename\<close> and \<^verbatim>\<open>path\<close> in the
  handler; \<^verbatim>\<open>path\<close> is the entry \<open>filename\<close> of \<^verbatim>\<open>uploads/temp\<close>.
\<close>

record upfile =
  fieldname :: jsstring
  originalname :: jsstring
  filename :: jsstring

record request =
  title :: "jsstring option"
  description :: "jsstring option"
  thumbnailURL :: "jsstring option"
  videoURL :: "jsstring option"
  thumbnail :: "upfile option"
  video :: "upfile option"

text \<open>
  The clock readings of one request, in the order the code takes them: \<^verbatim>\<open>Date.now()\<close>
  in the filename callback for the file of each slot, in \<^verbatim>\<open>createMovieFolderName\<close> and for
  \<^verbatim>\<open>metadata.id\<close>, and \<^verbatim>\<open>new Date().toISOString()\<close>.
\<close>

record clock =
  now_thumbnail :: nat
  now_video :: nat
  now_folder :: nat
  now_id :: nat
  now_iso :: jsstring

datatype body = Json json | ServerError js_error

datatype reply = Reply (status: nat) (body: body)

definition message :: "string \<Rightarrow> body" where
  "message m = Json (JObj [(lit ''message'', JStr (lit m))])"

text \<open>JavaScript truthiness of a value that is \<^verbatim>\<open>undefined\<close> or a string.\<close>

definition truthy :: "jsstring option \<Rightarrow> bool" where
  "truthy v = (case v of None \<Rightarrow> False | Some x \<Rightarrow> x \<noteq> [])"

text \<open>\<^verbatim>\<open>v || ""\<close>.\<close>

definition or_empty :: "jsstring option \<Rightarrow> jsstring" where
  "or_empty v = (if truthy v then (case v of None \<Rightarrow> [] | Some x \<Rightarrow> x) else [])"

section \<open>What multer hands to the handler (server.js, lines 41--74)\<close>

text \<open>
  multer runs before the handler body.  For a file it accepts into a slot it calls the
  filename callback of lines 52--61 with the file's \<^verbatim>\<open>fieldname\<close> (the slot) and
  \<^verbatim>\<open>originalname\<close>, stores the file under the returned name in \<^verbatim>\<open>uploads/temp\<close> and
  puts the file object, with that \<^verbatim>\<open>filename\<close>, under \<^verbatim>\<open>req.files[slot]\<close>.  The
  predicate says this of the file objects of a request and of the files the handler
  finds; a part that multer does not take as a file leaves no file object, and a request
  on which multer reports an error does not reach the handler body (lines 89--95).
\<close>

definition stored_file :: "path_lib \<Rightarrow> jsstring \<Rightarrow> nat \<Rightarrow> fs \<Rightarrow> upfile \<Rightarrow> bool" where
  "stored_file P slot now s f \<longleftrightarrow>
     fieldname f = slot \<and>
     filename f = multer_filename P (fieldname f) now (originalname f) \<and>
     map_of (temp s) (filename f) \<noteq> None"

definition multer_stored :: "path_lib \<Rightarrow> clock \<Rightarrow> request \<Rightarrow> fs \<Rightarrow> bool" where
  "multer_stored P clk req s \<longleftrightarrow>
     (case thumbnail req of
        None \<Rightarrow> True
      | Some f \<Rightarrow> stored_file P (lit ''thumbnail'') (now_thumbnail clk) s f) \<and>
     (case video req of
        None \<Rightarrow> True
      | Some f \<Rightarrow> stored_file P (lit ''video'') (now_video clk) s f)"

section \<open>The handler of POST /upload (server.js, lines 100--218)\<close>

text \<open>
  Lines 121--139 for the slot \<^verbatim>\<open>thumbnail\<close> and lines 142--160 for the slot
  \<^verbatim>\<open>video\<close> are the same block: an uploaded file is moved into the movie folder and
  referred to by its public path; otherwise a truthy URL is the reference and is written
  to \<^verbatim>\<open>{slot}-url.txt\<close>; otherwise the variable stays \<^verbatim>\<open>undefined\<close>.
\<close>

definition resolve_slot ::
  "jsstring \<Rightarrow> jsstring \<Rightarrow> upfile option \<Rightarrow> jsstring option \<Rightarrow> fs
     \<Rightarrow> js_error + (jsstring option \<times> fs)" where
  "resolve_slot slot movieFolderName file url s =
     (case file of
        Some f \<Rightarrow>
          (case renameSync (filename f) movieFolderName s of
             Inl e \<Rightarrow> Inl e
           | Inr s' \<Rightarrow>
               Inr (Some (lit ''/uploads/'' @ movieFolderName @ lit ''/'' @ filename f), s'))
      | None \<Rightarrow>
          (case url of
             None \<Rightarrow> Inr (None, s)
           | Some u \<Rightarrow>
               if u \<noteq> [] then
                 (case writeFileSync movieFolderName (slot @ lit ''-url.txt'') (Text u) s of
                    Inl e \<Rightarrow> Inl e
                  | Inr s' \<Rightarrow> Inr (Some u, s'))
               else Inr (None, s)))"

definition metadata_json ::
  "clock \<Rightarrow> jsstring \<Rightarrow> jsstring \<Rightarrow> jsstring option \<Rightarrow> jsstring option \<Rightarrow> json" where
  "metadata_json clk t d thumbnailPath videoPath =
     JObj [(lit ''id'', JStr (dec (now_id clk))),
           (lit ''title'', JStr t),
           (lit ''description'', JStr d),
           (lit ''uploadDate'', JStr (now_iso clk)),
           (lit ''thumbnail'', JStr (or_empty thumbnailPath)),
           (lit ''video'', JStr (or_empty videoPath))]"

definition newMovie_json ::
  "clock \<Rightarrow> jsstring \<Rightarrow> jsstring \<Rightarrow> jsstring \<Rightarrow> jsstring option \<Rightarrow> jsstring option \<Rightarrow> json" where
  "newMovie_json clk t d movieFolderName thumbnailPath videoPath =
     JObj [(lit ''id'', JStr (dec (now_id clk))),
           (lit ''title'', JStr t),
           (lit ''description'', JStr d),
           (lit ''folderPath'', JStr movieFolderName),
           (lit ''thumbnail'', JStr (or_empty thumbnailPath)),
           (lit ''video'', JStr (or_empty videoPath)),
           (lit ''uploadDate'', JStr (now_iso clk))]"

text \<open>
  Lines 194--202: the inner \<^verbatim>\<open>try\<close> reads and parses \<^verbatim>\<open>movies.json\<close> and logs
  \<^verbatim>\<open>movies.length\<close>; its \<^verbatim>\<open>catch\<close> falls back to the empty array.  Reading
  \<^verbatim>\<open>.length\<close> of \<^verbatim>\<open>null\<close> throws inside the \<^verbatim>\<open>try\<close>; of any other value it does not.
\<close>

fun read_movies :: "catalog_file \<Rightarrow> json" where
  "read_movies Missing = JArr []"
| "read_movies Garbled = JArr []"
| "read_movies (Holds JNull) = JArr []"
| "read_movies (Holds v) = v"

text \<open>Line 204: \<^verbatim>\<open>movies.push(newMovie)\<close> throws a TypeError on a value that is not an array.\<close>

fun push :: "json \<Rightarrow> json \<Rightarrow> js_error + json" where
  "push (JArr ms) m = Inr (JArr (ms @ [m]))"
| "push v m = Inl TypeError"

text \<open>
  The body of the outer \<^verbatim>\<open>try\<close>.  A thrown error leaves the files as they are at
  that point.  Past the first test \<open>title\<close> and \<open>description\<close> are truthy, so \<open>t\<close> and
  \<open>d\<close> are the two strings themselves.
\<close>

definition try_upload :: "clock \<Rightarrow> request \<Rightarrow> fs \<Rightarrow> (js_error + reply) \<times> fs" where
  "try_upload clk req s =
     (if \<not> truthy (title req) \<or> \<not> truthy (description req) then
        (Inr (Reply 400 (message ''Title and description are required'')), s)
      else
        let t = or_empty (title req);
            d = or_empty (description req);
            movieFolderName = createMovieFolderName (now_folder clk) t
        in case (if existsSync movieFolderName s then Inr s else mkdirSync movieFolderName s) of
             Inl e \<Rightarrow> (Inl e, s)
           | Inr s1 \<Rightarrow>
        (case resolve_slot (lit ''thumbnail'') movieFolderName (thumbnail req) (thumbnailURL req) s1 of
             Inl e \<Rightarrow> (Inl e, s1)
           | Inr (thumbnailPath, s2) \<Rightarrow>
        (case resolve_slot (lit ''video'') movieFolderName (video req) (videoURL req) s2 of
             Inl e \<Rightarrow> (Inl e, s2)
           | Inr (videoPath, s3) \<Rightarrow>
        (case writeFileSync movieFolderName (lit ''metadata.json'')
                (JsonText (metadata_json clk t d thumbnailPath videoPath)) s3 of
             Inl e \<Rightarrow> (Inl e, s3)
           | Inr s4 \<Rightarrow>
               if \<not> truthy thumbnailPath \<and> \<not> truthy videoPath then
                 (case rmdirSync movieFolderName s4 of
                    Inl e \<Rightarrow> (Inl e, s4)
                  | Inr s5 \<Rightarrow>
                      (Inr (Reply 400 (message
                         ''Please provide at least one thumbnail and one video (file or URL)'')), s5))
               else
                 let newMovie = newMovie_json clk t d movieFolderName thumbnailPath videoPath
                 in case push (read_movies (moviesFile s4)) newMovie of
                      Inl e \<Rightarrow> (Inl e, s4)
                    | Inr movies \<Rightarrow>
                        (Inr (Reply 200 (Json (JObj
                           [(lit ''message'', JStr (lit ''Movie added successfully'')),
                            (lit ''movie'', newMovie),
                            (lit ''folderPath'', JStr movieFolderName)]))),
                         s4\<lparr>moviesFile := Holds movies\<rparr>)))))"

text \<open>Lines 215--218: the outer \<^verbatim>\<open>catch\<close> answers 500 with the error's message.\<close>

definition upload_handler :: "clock \<Rightarrow> request \<Rightarrow> fs \<Rightarrow> reply \<times> fs" where
  "upload_handler clk req s =
     (case try_upload clk req s of
        (Inl e, s') \<Rightarrow> (Reply 500 (ServerError e), s')
      | (Inr r, s') \<Rightarrow> (r, s'))"

text \<open>
  Lines 88--95: the callback given to multer.  multer's outcome is its argument: an error
  that is a \<^verbatim>\<open>MulterError\<close>, any other error, each with its message, or none, in which
  case \<^verbatim>\<open>req.body\<close> and \<^verbatim>\<open>req.files\<close> are filled in and the handler body runs.
\<close>

datatype multer_outcome = MulterError jsstring | OtherError jsstring | Parsed request

definition post_upload :: "multer_outcome \<Rightarrow> clock \<Rightarrow> fs \<Rightarrow> reply \<times> fs" where
  "post_upload outcome clk s =
     (case outcome of
        MulterError m \<Rightarrow>
          (Reply 500 (Json (JObj [(lit ''message'', JStr (lit ''Multer error: '' @ m))])), s)
      | OtherError m \<Rightarrow>
          (Reply 500 (Json (JObj [(lit ''message'', JStr (lit ''Unknown error: '' @ m))])), s)
      | Parsed req \<Rightarrow> upload_handler clk req s)"

section \<open>GET /api/movies (server.js, lines 223--232)\<close>

definition list_movies :: "fs \<Rightarrow> reply" where
  "list_movies s =
     (case moviesFile s of
        Holds movies \<Rightarrow> Reply 200 (Json movies)
      | Missing \<Rightarrow> Reply 500 (message ''Error reading movies'')
      | Garbled \<Rightarrow> Reply 500 (message ''Error reading movies''))"

section \<open>Reading an item directory\<close>

text \<open>
  The reference of a slot as the item directory records it: the field of that slot in the
  document of \<^verbatim>\<open>metadata.json\<close> (lines 164--173), which also becomes the field of the
  catalog entry.
\<close>

definition stored_ref :: "fs \<Rightarrow> jsstring \<Rightarrow> jsstring \<Rightarrow> json option" where
  "stored_ref s dir slot =
     (case read_file s dir (lit ''metadata.json'') of
        Some (JsonText meta) \<Rightarrow> field slot meta
      | _ \<Rightarrow> None)"

section \<open>Start-up state and sample inputs\<close>

text \<open>
  Lines 19--24 and 76--81: at start-up \<^verbatim>\<open>uploads/\<close> exists and \<^verbatim>\<open>movies.json\<close>, when
  it did not exist, holds the empty array.
\<close>

definition initial_fs :: fs where
  "initial_fs = \<lparr>temp = [], folders = [], moviesFile = Holds (JArr [])\<rparr>"

definition sample_clock :: clock where
  "sample_clock =
     \<lparr>now_thumbnail = 1700000000001, now_video = 1700000000002,
      now_folder = 1700000000003, now_id = 1700000000004,
      now_iso = lit ''2023-11-14T22:13:20.004Z''\<rparr>"

text \<open>A submission with a thumbnail URL only, and one with a thumbnail file and a video URL.\<close>

definition url_request :: "request" where
  "url_request =
     \<lparr>title = Some (lit ''a''), description = Some (lit ''b''),
      thumbnailURL = Some (lit ''http://example.org/t.png''), videoURL = None,
      thumbnail = None, video = None\<rparr>"

definition file_request :: request where
  "file_request =
     \<lparr>title = Some (lit ''a''), description = Some (lit ''b''),
      thumbnailURL = Some (lit ''http://example.org/t.png''),
      videoURL = Some (lit ''http://example.org/v.mp4''),
      thumbnail = Some \<lparr>fieldname = lit ''thumbnail'', originalname = lit ''my pic.p g'',
                         filename = lit ''thumbnail-1700000000001-my_pic.p g''\<rparr>,
      video = None\<rparr>"

text \<open>The files after multer has stored that thumbnail on a freshly started server.\<close>

definition file_fs :: fs where
  "file_fs =
     \<lparr>temp = [(lit ''thumbnail-1700000000001-my_pic.p g'', [137, 80, 78, 71])],
      folders = [], moviesFile = Holds (JArr [])\<rparr>"

text \<open>
  A path library for the examples: on a POSIX system \<^verbatim>\<open>path.extname\<close> looks at the
  last component of the path (trailing slashes dropped) and returns it from its last dot
  on, or the empty string when there is no dot, when the last dot is the first character
  of the component, or when the component is \<^verbatim>\<open>..\<close>; and
  \<^verbatim>\<open>path.basename(p, path.extname(p))\<close> is that component without the extension.
\<close>

definition last_component :: "jsstring \<Rightarrow> jsstring" where
  "last_component p =
     rev (takeWhile (\<lambda>c. c \<noteq> cu CHR ''/'') (dropWhile (\<lambda>c. c = cu CHR ''/'') (rev p)))"

definition posix_extname :: "jsstring \<Rightarrow> jsstring" where
  "posix_extname p =
     (let comp = last_component p;
          ext_len = Suc (length (takeWhile (\<lambda>c. c \<noteq> cu CHR ''.'') (rev comp)))
      in if length comp < ext_len \<or> length comp = ext_len \<or> comp = lit ''..'' then []
         else drop (length comp - ext_len) comp)"

definition posix_basename :: "jsstring \<Rightarrow> jsstring \<Rightarrow> jsstring" where
  "posix_basename p ext =
     (let comp = last_component p
      in if ext \<noteq> [] \<and> length ext < length comp \<and>
            drop (length comp - length ext) comp = ext
         then take (length comp - length ext) comp
         else comp)"

definition posix_path :: path_lib where
  "posix_path = \<lparr>extname = posix_extname, basename = posix_basename\<rparr>"

section \<open>Properties of the sanitizer\<close>

lemma allowed_underscore: "allowed (cu CHR ''_'')"
  by (simp add: allowed_def)

lemma replace_invalid_allowed: "list_all allowed (replace_invalid s)"
  by (induction s) (simp_all add: replace_invalid_def allowed_underscore)

lemma collapse_underscores_allowed:
  "list_all allowed s \<Longrightarrow> list_all allowed (collapse_underscores s)"
proof (induction s rule: collapse_underscores.induct)
  case 1
  show ?case by simp
next
  case (2 c cs)
  have "list_all allowed (dropWhile (\<lambda>d. d = cu CHR ''_'') cs)"
    using "2.prems" by (auto simp: list_all_iff dest: set_dropWhileD)
  with 2 show ?case by (simp add: allowed_underscore)
qed

lemma sanitizeFilename_allowed: "list_all allowed (sanitizeFilename s)"
  by (simp add: sanitizeFilename_def collapse_underscores_allowed replace_invalid_allowed)

lemma hd_dropWhile_underscore:
  "dropWhile (\<lambda>d. d = cu CHR ''_'') cs = x # xs \<Longrightarrow> x \<noteq> cu CHR ''_''"
  using hd_dropWhile [of "\<lambda>d. d = cu CHR ''_''" cs] by auto

lemma collapse_underscores_hd:
  "collapse_underscores s = x # xs \<Longrightarrow> \<exists>ys. s = x # ys"
  by (cases s) (auto split: if_splits)

lemma collapse_underscores_no_pair:
  "collapse_underscores s \<noteq> ps @ cu CHR ''_'' # cu CHR ''_'' # ss"
proof (induction s arbitrary: ps rule: collapse_underscores.induct)
  case 1
  show ?case by simp
next
  case (2 c cs)
  show ?case
  proof (cases "c = cu CHR ''_''")
    case True
    let ?r = "dropWhile (\<lambda>d. d = cu CHR ''_'') cs"
    show ?thesis
    proof (cases ps)
      case Nil
      have "collapse_underscores ?r \<noteq> cu CHR ''_'' # ss"
      proof
        assume "collapse_underscores ?r = cu CHR ''_'' # ss"
        then obtain ys where "?r = cu CHR ''_'' # ys"
          using collapse_underscores_hd by blast
        then show False using hd_dropWhile_underscore by blast
      qed
      with True Nil show ?thesis by simp
    next
      case (Cons p ps')
      with True "2.IH"(1) [of ps'] show ?thesis by simp
    qed
  next
    case False
    show ?thesis
    proof (cases ps)
      case Nil
      with False show ?thesis by simp
    next
      case (Cons p ps')
      with False "2.IH"(2) [of ps'] show ?thesis by simp
    qed
  qed
qed

text \<open>
  C4.  For every input string the result of \<^verbatim>\<open>sanitizeFilename\<close> consists only of
  code units of \<^verbatim>\<open>[A-Za-z0-9_.-]\<close> and has no two adjacent underscores.  The
  sanitizer is a total function of its argument alone: it returns a string for every
  input, and equal inputs give equal outputs.
\<close>

theorem sanitizeFilename_whitelist_no_double_underscore:
  "list_all allowed (sanitizeFilename s) \<and>
   \<not> sublist (lit ''__'') (sanitizeFilename s)"
proof -
  have "\<not> sublist (lit ''__'') (sanitizeFilename s)"
    using collapse_underscores_no_pair
    by (auto simp: sublist_def lit_def sanitizeFilename_def)
  then show ?thesis by (simp add: sanitizeFilename_allowed)
qed

section \<open>The directory name\<close>

lemma dropWhile_take:
  "dropWhile P (take m cs) = take (m - length (takeWhile P cs)) (dropWhile P cs)"
  by (induction cs arbitrary: m) (auto simp: take_Cons')

lemma collapse_underscores_take:
  "prefix (collapse_underscores (take n s)) (collapse_underscores s)"
proof (induction s arbitrary: n rule: collapse_underscores.induct)
  case 1
  show ?case by simp
next
  case (2 c cs)
  show ?case
  proof (cases n)
    case 0
    then show ?thesis by simp
  next
    case (Suc m)
    show ?thesis
    proof (cases "c = cu CHR ''_''")
      case True
      with Suc "2.IH"(1) show ?thesis by (simp add: dropWhile_take)
    next
      case False
      with Suc "2.IH"(2) show ?thesis by simp
    qed
  qed
qed

lemma length_collapse_underscores: "length (collapse_underscores s) \<le> length s"
proof (induction s rule: collapse_underscores.induct)
  case 1
  show ?case by simp
next
  case (2 c cs)
  have "length (dropWhile (\<lambda>d. d = cu CHR ''_'') cs) \<le> length cs"
    by (rule length_dropWhile_le)
  with 2 show ?case by auto
qed

lemma length_sanitizeFilename: "length (sanitizeFilename s) \<le> length s"
  using length_collapse_underscores [of "replace_invalid s"]
  by (simp add: sanitizeFilename_def replace_invalid_def)

lemma sanitizeFilename_take:
  "prefix (sanitizeFilename (take n s)) (take n (sanitizeFilename s))"
proof -
  have p: "prefix (sanitizeFilename (take n s)) (sanitizeFilename s)"
    using collapse_underscores_take [of n "replace_invalid s"]
    by (simp add: sanitizeFilename_def replace_invalid_def take_map)
  have "length (sanitizeFilename (take n s)) \<le> n"
    using length_sanitizeFilename [of "take n s"] by simp
  with p show ?thesis
    by (auto simp: prefix_def)
qed



text \<open>
  C3 (as the code has it).  The directory name is the timestamp, a hyphen and the first 30
  code units of the sanitized title: the title is sanitized first and capped afterwards.
  The name the specification describes (cap first, sanitize afterwards) is always a
  prefix of it, and the two agree for every title of at most 30 code units.
\<close>

theorem createMovieFolderName_sanitize_then_cap:
  "createMovieFolderName ts t = dec ts @ lit ''-'' @ take 30 (sanitizeFilename t) \<and>
   prefix (folderName_cap_then_sanitize ts t) (createMovieFolderName ts t) \<and>
   (length t \<le> 30 \<longrightarrow> createMovieFolderName ts t = folderName_cap_then_sanitize ts t)"
proof -
  have "length t \<le> 30 \<Longrightarrow> take 30 (sanitizeFilename t) = sanitizeFilename t"
    using length_sanitizeFilename [of t] by simp
  then show ?thesis
    by (auto simp: createMovieFolderName_def folderName_cap_then_sanitize_def
        sanitizeFilename_take)
qed

text \<open>The equations that evaluate the sanitizer on a literal.\<close>

lemmas run_sanitize = sanitizeFilename_def replace_invalid_def allowed_def lit_def cu_def

theorem createMovieFolderName_sanitize_then_cap_witness:
  "createMovieFolderName 1700000000000 (lit ''My Movie!!'') =
     folderName_cap_then_sanitize 1700000000000 (lit ''My Movie!!'') \<and>
   createMovieFolderName 1700000000000 (lit ''My Movie!!'') = lit ''1700000000000-My_Movie_''"
proof -
  have "length (lit ''My Movie!!'') \<le> 30" by (simp add: lit_def)
  moreover have "folderName_cap_then_sanitize 1700000000000 (lit ''My Movie!!'') =
      lit ''1700000000000-My_Movie_''"
    by (simp add: folderName_cap_then_sanitize_def dec.simps run_sanitize)
  moreover have "length (lit ''My Movie!!'') \<le> 30 \<longrightarrow>
      createMovieFolderName 1700000000000 (lit ''My Movie!!'') =
        folderName_cap_then_sanitize 1700000000000 (lit ''My Movie!!'')"
    using createMovieFolderName_sanitize_then_cap [of 1700000000000 "lit ''My Movie!!''"]
    by (elim conjE)
  ultimately show ?thesis by simp
qed

text \<open>
  C3 as stated fails: for a title of two exclamation marks followed by 29 letters the code
  keeps 30 code units of the sanitized title, while capping first leaves only 29.
\<close>

theorem createMovieFolderName_cap_first_counterexample:
  "createMovieFolderName 1700000000000 (lit ''!!aaaaaaaaaaaaaaaaaaaaaaaaaaaaa'') \<noteq>
   folderName_cap_then_sanitize 1700000000000 (lit ''!!aaaaaaaaaaaaaaaaaaaaaaaaaaaaa'')"
  by (simp add: createMovieFolderName_def folderName_cap_then_sanitize_def run_sanitize)

section \<open>Names built from a timestamp\<close>

lemma lit_simps: "lit [] = []" "lit (c # cs) = cu c # lit cs"
  by (simp_all add: lit_def)

lemma digit_range:
  assumes "n < 10"
  shows "cu CHR ''0'' \<le> cu CHR ''0'' + of_nat n \<and> cu CHR ''0'' + of_nat n \<le> cu CHR ''9''"
proof -
  from assms have "n \<in> {0, 1, 2, 3, 4, 5, 6, 7, 8, 9}" by auto
  then show ?thesis by (auto simp: cu_def)
qed

lemma dec_digits: "list_all is_digit (dec n)"
proof (induction n rule: dec.induct)
  case (1 n)
  show ?case
  proof (cases "n < 10")
    case True
    then show ?thesis using digit_range [of n] by (simp add: dec.simps [of n] is_digit_def)
  next
    case False
    then show ?thesis using 1 digit_range [of "n mod 10"] by (simp add: dec.simps [of n] is_digit_def)
  qed
qed

lemma dec_not_Nil: "dec n \<noteq> []"
  by (subst dec.simps) simp

lemma dec_Cons: "\<exists>x xs. dec n = x # xs \<and> is_digit x"
  using dec_digits [of n] dec_not_Nil [of n] by (cases "dec n") auto

lemma is_digit_allowed: "is_digit c \<Longrightarrow> allowed c"
  by (simp add: is_digit_def allowed_def)

lemma dec_allowed: "list_all allowed (dec n)"
  using dec_digits [of n] by (auto simp: list_all_iff is_digit_allowed)

lemma createMovieFolderName_not_temp: "createMovieFolderName ts t \<noteq> lit ''temp''"
proof -
  obtain x xs where "dec ts = x # xs" "is_digit x" using dec_Cons by blast
  then show ?thesis
    by (auto simp: createMovieFolderName_def lit_simps is_digit_def cu_def)
qed

lemma thumbnail_video_names_differ:
  "multer_filename P (lit ''thumbnail'') n1 o1 \<noteq> multer_filename P (lit ''video'') n2 o2"
  by (simp add: multer_filename_def lit_simps cu_def Let_def)

section \<open>Effects of the file operations\<close>

text \<open>The equations that evaluate the file operations and the handler on concrete inputs.\<close>

lemmas run_fs = existsSync_def mkdirSync_def renameSync_def writeFileSync_def rmdirSync_def
  read_file_def

lemmas run_handler = upload_handler_def try_upload_def resolve_slot_def truthy_def
  or_empty_def metadata_json_def newMovie_json_def message_def

lemma existsSync_iff: "existsSync dir s \<longleftrightarrow> map_of (folders s) dir \<noteq> None"
  by (simp add: existsSync_def split: option.splits)

lemma writeFileSync_Inr:
  assumes "writeFileSync dir n c s = Inr s'"
  shows "temp s' = temp s" and "moviesFile s' = moviesFile s"
    and "read_file s' dir' n' = (if dir' = dir \<and> n' = n then Some c else read_file s dir' n')"
    and "existsSync dir' s' = existsSync dir' s" and "existsSync dir s"
  using assms
  by (auto simp: writeFileSync_def read_file_def existsSync_iff update_conv'
      split: option.splits if_splits)

lemma writeFileSync_ok:
  "existsSync dir s \<Longrightarrow> \<exists>s'. writeFileSync dir n c s = Inr s'"
  by (auto simp: writeFileSync_def existsSync_iff)

lemma renameSync_Inr:
  assumes "renameSync n dir s = Inr s'"
  shows "temp s' = AList.delete n (temp s)" and "moviesFile s' = moviesFile s"
    and "\<exists>b. map_of (temp s) n = Some b \<and>
           read_file s' dir' n' =
             (if dir' = dir \<and> n' = n then Some (Bytes b) else read_file s dir' n')"
    and "existsSync dir' s' = existsSync dir' s" and "existsSync dir s"
  using assms
  by (auto simp: renameSync_def read_file_def existsSync_iff update_conv'
      split: option.splits if_splits)

lemma renameSync_ok:
  "map_of (temp s) n = Some b \<Longrightarrow> existsSync dir s \<Longrightarrow> \<exists>s'. renameSync n dir s = Inr s'"
  by (auto simp: renameSync_def existsSync_iff)

lemma ensure_folder:
  "\<exists>s1. (if existsSync dir s then Inr s else mkdirSync dir s) = Inr s1 \<and>
     temp s1 = temp s \<and> moviesFile s1 = moviesFile s \<and> existsSync dir s1 \<and>
     (\<forall>dir' n'. read_file s1 dir' n' = read_file s dir' n')"
  by (auto simp: mkdirSync_def existsSync_iff read_file_def update_conv' split: option.splits)

lemma resolve_slot_Inr:
  assumes "resolve_slot slot dir file url s = Inr (p, s')"
  shows "moviesFile s' = moviesFile s" and "existsSync dir' s' = existsSync dir' s"
  using assms
  by (auto simp: resolve_slot_def split: option.splits sum.splits if_splits
      dest: renameSync_Inr writeFileSync_Inr)

lemma rmdirSync_after_write:
  "writeFileSync dir n c s = Inr s' \<Longrightarrow> rmdirSync dir s' = Inl ENOTEMPTY"
  by (cases "map_of (folders s) dir")
     (auto simp: writeFileSync_def rmdirSync_def update_conv' split: list.splits)

section \<open>Rejected submissions\<close>

lemma try_upload_invalid:
  "\<not> truthy (title req) \<or> \<not> truthy (description req) \<Longrightarrow>
   try_upload clk req s =
     (Inr (Reply 400 (message ''Title and description are required'')), s)"
  by (auto simp: try_upload_def)

lemma upload_handler_invalid:
  "\<not> truthy (title req) \<or> \<not> truthy (description req) \<Longrightarrow>
   upload_handler clk req s =
     (Reply 400 (message ''Title and description are required''), s)"
  by (simp add: upload_handler_def try_upload_invalid)

lemma not_truthy_iff: "\<not> truthy v \<longleftrightarrow> v = None \<or> v = Some []"
  by (simp add: truthy_def split: option.splits)

text \<open>
  C5.  A submission whose title or description is missing or empty is answered 400
  (\<^verbatim>\<open>Title and description are required\<close>) whatever files and URLs it carries, and
  nothing on disk changes: no directory is created and \<^verbatim>\<open>movies.json\<close> is as it was.
  The submission is the request as multer hands it to the handler body.
\<close>

theorem missing_title_or_description_rejected:
  assumes "title req = None \<or> title req = Some [] \<or>
           description req = None \<or> description req = Some []"
  shows "upload_handler clk req s =
           (Reply 400 (message ''Title and description are required''), s)"
proof -
  from assms have "\<not> truthy (title req) \<or> \<not> truthy (description req)"
    by (auto simp: not_truthy_iff)
  then show ?thesis by (rule upload_handler_invalid)
qed

theorem missing_title_or_description_rejected_witness:
  "upload_handler sample_clock (file_request\<lparr>title := Some []\<rparr>) file_fs =
     (Reply 400 (message ''Title and description are required''), file_fs)"
proof -
  have "title (file_request\<lparr>title := Some []\<rparr>) = None \<or>
        title (file_request\<lparr>title := Some []\<rparr>) = Some [] \<or>
        description (file_request\<lparr>title := Some []\<rparr>) = None \<or>
        description (file_request\<lparr>title := Some []\<rparr>) = Some []"
    by simp
  then show ?thesis by (rule missing_title_or_description_rejected)
qed

text \<open>
  The handler body runs only when multer reports no error; an error is answered 500
  before the title is looked at, and the files are left as multer left them.
\<close>

lemma post_upload_parsed: "post_upload (Parsed req) clk s = upload_handler clk req s"
  by (simp add: post_upload_def)

lemma multer_error_precedes_validation:
  "status (fst (post_upload (MulterError m) clk s)) = 500 \<and>
   status (fst (post_upload (OtherError m) clk s)) = 500 \<and>
   snd (post_upload (MulterError m) clk s) = s \<and>
   snd (post_upload (OtherError m) clk s) = s"
  by (simp add: post_upload_def)

section \<open>Submissions without an asset\<close>

lemma resolve_slot_nothing:
  "\<not> truthy url \<Longrightarrow> resolve_slot slot dir None url s = Inr (None, s)"
  by (auto simp: resolve_slot_def not_truthy_iff)

lemma try_upload_no_assets:
  assumes "truthy (title req)" "truthy (description req)"
    and "thumbnail req = None" "video req = None"
    and "\<not> truthy (thumbnailURL req)" "\<not> truthy (videoURL req)"
  shows "\<exists>s'. try_upload clk req s = (Inl ENOTEMPTY, s') \<and>
           moviesFile s' = moviesFile s \<and> temp s' = temp s \<and>
           read_file s' (createMovieFolderName (now_folder clk) (or_empty (title req)))
               (lit ''metadata.json'') =
             Some (JsonText (metadata_json clk (or_empty (title req))
                    (or_empty (description req)) None None))"
proof -
  let ?dir = "createMovieFolderName (now_folder clk) (or_empty (title req))"
  let ?meta = "JsonText (metadata_json clk (or_empty (title req))
                    (or_empty (description req)) None None)"
  obtain s1 where s1: "(if existsSync ?dir s then Inr s else mkdirSync ?dir s) = Inr s1"
    "temp s1 = temp s" "moviesFile s1 = moviesFile s" "existsSync ?dir s1"
    using ensure_folder [of ?dir s] by blast
  obtain s4 where s4: "writeFileSync ?dir (lit ''metadata.json'') ?meta s1 = Inr s4"
    using writeFileSync_ok [OF s1(4)] by blast
  have rm: "rmdirSync ?dir s4 = Inl ENOTEMPTY"
    using s4 by (rule rmdirSync_after_write)
  have "try_upload clk req s = (Inl ENOTEMPTY, s4)"
    using assms s1(1) s4 rm
    by (simp add: try_upload_def Let_def resolve_slot_nothing truthy_def)
  then show ?thesis
    using writeFileSync_Inr [OF s4] s1 by simp
qed


lemma folder_a: "createMovieFolderName 1700000000003 (lit ''a'') = lit ''1700000000003-a''"
  by (simp add: createMovieFolderName_def dec.simps run_sanitize)

lemma dec_sample_id: "dec 1700000000004 = lit ''1700000000004''"
  by (simp add: dec.simps lit_def cu_def)

text \<open>
  C1 (what the code does).  A submission with a title and a description but no file and
  no URL in either slot: \<^verbatim>\<open>metadata.json\<close> has been written into the new directory
  before the test of line 176, so \<^verbatim>\<open>fs.rmdirSync\<close> throws \<^verbatim>\<open>ENOTEMPTY\<close>, the outer
  \<^verbatim>\<open>catch\<close> answers 500, and the directory stays, holding \<^verbatim>\<open>metadata.json\<close>.  The
  catalog is unchanged.
\<close>

theorem no_assets_submission_replies_500:
  "upload_handler sample_clock
     \<lparr>title = Some (lit ''a''), description = Some (lit ''b''),
      thumbnailURL = None, videoURL = None, thumbnail = None, video = None\<rparr>
     initial_fs =
   (Reply 500 (ServerError ENOTEMPTY),
    initial_fs\<lparr>folders :=
      [(lit ''1700000000003-a'',
        [(lit ''metadata.json'',
          JsonText (JObj [(lit ''id'', JStr (lit ''1700000000004'')),
                          (lit ''title'', JStr (lit ''a'')),
                          (lit ''description'', JStr (lit ''b'')),
                          (lit ''uploadDate'', JStr (lit ''2023-11-14T22:13:20.004Z'')),
                          (lit ''thumbnail'', JStr []),
                          (lit ''video'', JStr [])]))])]\<rparr>)"
proof -
  have "lit ''a'' \<noteq> []" "lit ''b'' \<noteq> []" by (simp_all add: lit_def)
  then show ?thesis
    by (simp add: run_handler run_fs sample_clock_def initial_fs_def folder_a dec_sample_id)
qed

lemma resolve_slot_empty_url:
  "resolve_slot slot dir file (Some []) s = resolve_slot slot dir file None s"
  by (simp add: resolve_slot_def split: option.splits)

lemma upload_handler_no_assets:
  assumes "thumbnail req = None" "video req = None"
    and "\<not> truthy (thumbnailURL req)" "\<not> truthy (videoURL req)"
  shows "status (fst (upload_handler clk req s)) \<noteq> 200 \<and>
         moviesFile (snd (upload_handler clk req s)) = moviesFile s"
proof (cases "truthy (title req) \<and> truthy (description req)")
  case True
  then obtain s' where "try_upload clk req s = (Inl ENOTEMPTY, s')" "moviesFile s' = moviesFile s"
    using try_upload_no_assets [of req clk s] assms by blast
  then show ?thesis by (simp add: upload_handler_def)
next
  case False
  then show ?thesis using upload_handler_invalid [of req clk s] by auto
qed

text \<open>
  C9.  An empty-string URL is treated as an absent one: the handler does the same, to the
  reply and to every file, whether \<^verbatim>\<open>thumbnailURL\<close> (or \<^verbatim>\<open>videoURL\<close>) is the empty
  string or was not sent; a slot with no file and the empty string as URL resolves to no
  reference and writes nothing; and a submission with no file whose URLs are empty or
  absent is not accepted: the reply is not 200 and the catalog is unchanged.
\<close>

theorem empty_url_counts_as_absent:
  "upload_handler clk (req\<lparr>thumbnailURL := Some []\<rparr>) s =
     upload_handler clk (req\<lparr>thumbnailURL := None\<rparr>) s \<and>
   upload_handler clk (req\<lparr>videoURL := Some []\<rparr>) s =
     upload_handler clk (req\<lparr>videoURL := None\<rparr>) s \<and>
   resolve_slot slot dir None (Some []) s = Inr (None, s) \<and>
   (thumbnail req = None \<and> video req = None \<and>
    (thumbnailURL req = None \<or> thumbnailURL req = Some []) \<and>
    (videoURL req = None \<or> videoURL req = Some []) \<longrightarrow>
      status (fst (upload_handler clk req s)) \<noteq> 200 \<and>
      moviesFile (snd (upload_handler clk req s)) = moviesFile s)"
proof -
  have 1: "upload_handler clk (req\<lparr>thumbnailURL := Some []\<rparr>) s =
     upload_handler clk (req\<lparr>thumbnailURL := None\<rparr>) s"
    by (simp add: upload_handler_def try_upload_def resolve_slot_empty_url Let_def
        cong: sum.case_cong prod.case_cong if_cong)
  have 2: "upload_handler clk (req\<lparr>videoURL := Some []\<rparr>) s =
     upload_handler clk (req\<lparr>videoURL := None\<rparr>) s"
    by (simp add: upload_handler_def try_upload_def resolve_slot_empty_url Let_def
        cong: sum.case_cong prod.case_cong if_cong)
  have 3: "resolve_slot slot dir None (Some []) s = Inr (None, s)"
    by (simp add: resolve_slot_def)
  show ?thesis
    using 1 2 3 upload_handler_no_assets [of req clk s] by (simp add: not_truthy_iff)
qed

theorem empty_url_counts_as_absent_witness:
  "status (fst (upload_handler sample_clock
      \<lparr>title = Some (lit ''a''), description = Some (lit ''b''),
       thumbnailURL = Some [], videoURL = None, thumbnail = None, video = None\<rparr>
      initial_fs)) \<noteq> 200 \<and>
   moviesFile (snd (upload_handler sample_clock
      \<lparr>title = Some (lit ''a''), description = Some (lit ''b''),
       thumbnailURL = Some [], videoURL = None, thumbnail = None, video = None\<rparr>
      initial_fs)) = Holds (JArr [])"
proof -
  let ?req = "\<lparr>title = Some (lit ''a''), description = Some (lit ''b''),
       thumbnailURL = Some [], videoURL = None, thumbnail = None, video = None\<rparr>
       :: request"
  have "thumbnail ?req = None \<and> video ?req = None \<and>
    (thumbnailURL ?req = None \<or> thumbnailURL ?req = Some []) \<and>
    (videoURL ?req = None \<or> videoURL ?req = Some []) \<longrightarrow>
      status (fst (upload_handler sample_clock ?req initial_fs)) \<noteq> 200 \<and>
      moviesFile (snd (upload_handler sample_clock ?req initial_fs)) = moviesFile initial_fs"
    using empty_url_counts_as_absent [of sample_clock ?req initial_fs "[]" "[]"]
    by (elim conjE)
  then show ?thesis by (simp add: initial_fs_def)
qed

section \<open>Accepted submissions and the catalog\<close>

lemma try_upload_success:
  assumes "try_upload clk req s = (Inr (Reply 200 b), s')"
  shows "\<exists>tp vp s3 s4 movies.
     truthy (title req) \<and> truthy (description req) \<and>
     writeFileSync (createMovieFolderName (now_folder clk) (or_empty (title req)))
       (lit ''metadata.json'')
       (JsonText (metadata_json clk (or_empty (title req)) (or_empty (description req)) tp vp))
       s3 = Inr s4 \<and>
     moviesFile s3 = moviesFile s \<and>
     push (read_movies (moviesFile s))
       (newMovie_json clk (or_empty (title req)) (or_empty (description req))
          (createMovieFolderName (now_folder clk) (or_empty (title req))) tp vp) = Inr movies \<and>
     s' = s4\<lparr>moviesFile := Holds movies\<rparr> \<and>
     b = Json (JObj
           [(lit ''message'', JStr (lit ''Movie added successfully'')),
            (lit ''movie'', newMovie_json clk (or_empty (title req)) (or_empty (description req))
               (createMovieFolderName (now_folder clk) (or_empty (title req))) tp vp),
            (lit ''folderPath'',
               JStr (createMovieFolderName (now_folder clk) (or_empty (title req))))])"
proof -
  let ?dir = "createMovieFolderName (now_folder clk) (or_empty (title req))"
  from assms have ok: "truthy (title req)" "truthy (description req)"
    by (auto simp: try_upload_def split: if_splits)
  obtain s1 where s1: "(if existsSync ?dir s then Inr s else mkdirSync ?dir s) = Inr s1"
    "moviesFile s1 = moviesFile s"
    using ensure_folder [of ?dir s] by blast
  from assms ok s1(1) obtain tp s2 where
    t: "resolve_slot (lit ''thumbnail'') ?dir (thumbnail req) (thumbnailURL req) s1 = Inr (tp, s2)"
    by (auto simp: try_upload_def Let_def split: sum.splits)
  from assms ok s1(1) t obtain vp s3 where
    v: "resolve_slot (lit ''video'') ?dir (video req) (videoURL req) s2 = Inr (vp, s3)"
    by (auto simp: try_upload_def Let_def split: sum.splits)
  have m3: "moviesFile s3 = moviesFile s"
    using resolve_slot_Inr(1) [OF t] resolve_slot_Inr(1) [OF v] s1(2) by simp
  from assms ok s1(1) t v obtain s4 where
    w: "writeFileSync ?dir (lit ''metadata.json'')
          (JsonText (metadata_json clk (or_empty (title req)) (or_empty (description req)) tp vp))
          s3 = Inr s4"
    by (auto simp: try_upload_def Let_def split: sum.splits)
  have m4: "moviesFile s4 = moviesFile s"
    using writeFileSync_Inr(2) [OF w] m3 by simp
  have rm: "rmdirSync ?dir s4 = Inl ENOTEMPTY"
    using w by (rule rmdirSync_after_write)
  from assms ok s1(1) t v w rm obtain movies where
    p: "push (read_movies (moviesFile s4))
       (newMovie_json clk (or_empty (title req)) (or_empty (description req)) ?dir tp vp) =
         Inr movies"
    and s': "s' = s4\<lparr>moviesFile := Holds movies\<rparr>"
    and b: "b = Json (JObj
           [(lit ''message'', JStr (lit ''Movie added successfully'')),
            (lit ''movie'', newMovie_json clk (or_empty (title req)) (or_empty (description req))
               ?dir tp vp),
            (lit ''folderPath'', JStr ?dir)])"
    by (auto simp: try_upload_def Let_def split: sum.splits if_splits)
  from p m4 have "push (read_movies (moviesFile s))
       (newMovie_json clk (or_empty (title req)) (or_empty (description req)) ?dir tp vp) =
         Inr movies" by simp
  with ok w m3 s' b show ?thesis by blast
qed

lemma upload_handler_success:
  "upload_handler clk req s = (Reply 200 b, s') \<Longrightarrow>
   try_upload clk req s = (Inr (Reply 200 b), s')"
  by (auto simp: upload_handler_def split: sum.splits prod.splits)

lemma push_Inr: "push v m = Inr w \<Longrightarrow> \<exists>ms. v = JArr ms \<and> w = JArr (ms @ [m])"
  by (cases v) auto

lemma read_file_moviesFile_update [simp]:
  "read_file (s\<lparr>moviesFile := c\<rparr>) dir n = read_file s dir n"
  by (simp add: read_file_def)

lemma metadata_fields:
  "field (lit ''id'') (metadata_json clk t d tp vp) = Some (JStr (dec (now_id clk)))"
  "field (lit ''title'') (metadata_json clk t d tp vp) = Some (JStr t)"
  "field (lit ''description'') (metadata_json clk t d tp vp) = Some (JStr d)"
  "field (lit ''thumbnail'') (metadata_json clk t d tp vp) = Some (JStr (or_empty tp))"
  "field (lit ''video'') (metadata_json clk t d tp vp) = Some (JStr (or_empty vp))"
  by (simp_all add: metadata_json_def lit_def cu_def)

lemma newMovie_fields:
  "field (lit ''id'') (newMovie_json clk t d dir tp vp) = Some (JStr (dec (now_id clk)))"
  "field (lit ''title'') (newMovie_json clk t d dir tp vp) = Some (JStr t)"
  "field (lit ''description'') (newMovie_json clk t d dir tp vp) = Some (JStr d)"
  "field (lit ''thumbnail'') (newMovie_json clk t d dir tp vp) = Some (JStr (or_empty tp))"
  "field (lit ''video'') (newMovie_json clk t d dir tp vp) = Some (JStr (or_empty vp))"
  by (simp_all add: newMovie_json_def lit_def cu_def)

text \<open>
  C8.  After every submission answered 200, the document in \<^verbatim>\<open>metadata.json\<close> of the
  item directory and the entry appended last to the catalog have the same \<^verbatim>\<open>id\<close>,
  \<^verbatim>\<open>title\<close>, \<^verbatim>\<open>description\<close>, \<^verbatim>\<open>thumbnail\<close> and \<^verbatim>\<open>video\<close>.
\<close>

theorem metadata_agrees_with_catalog_entry:
  assumes "upload_handler clk req s = (Reply 200 b, s')"
  shows "\<exists>meta movies movie tref vref.
     read_file s' (createMovieFolderName (now_folder clk) (or_empty (title req)))
       (lit ''metadata.json'') = Some (JsonText meta) \<and>
     moviesFile s' = Holds (JArr (movies @ [movie])) \<and>
     field (lit ''id'') meta = Some (JStr (dec (now_id clk))) \<and>
     field (lit ''id'') movie = Some (JStr (dec (now_id clk))) \<and>
     field (lit ''title'') meta = Some (JStr (or_empty (title req))) \<and>
     field (lit ''title'') movie = Some (JStr (or_empty (title req))) \<and>
     field (lit ''description'') meta = Some (JStr (or_empty (description req))) \<and>
     field (lit ''description'') movie = Some (JStr (or_empty (description req))) \<and>
     field (lit ''thumbnail'') meta = Some (JStr tref) \<and>
     field (lit ''thumbnail'') movie = Some (JStr tref) \<and>
     field (lit ''video'') meta = Some (JStr vref) \<and>
     field (lit ''video'') movie = Some (JStr vref)"
proof -
  let ?dir = "createMovieFolderName (now_folder clk) (or_empty (title req))"
  let ?t = "or_empty (title req)" and ?d = "or_empty (description req)"
  from try_upload_success [OF upload_handler_success [OF assms]]
  obtain tp vp s3 s4 movies where
    w: "writeFileSync ?dir (lit ''metadata.json'') (JsonText (metadata_json clk ?t ?d tp vp)) s3
          = Inr s4"
    and p: "push (read_movies (moviesFile s)) (newMovie_json clk ?t ?d ?dir tp vp) = Inr movies"
    and s': "s' = s4\<lparr>moviesFile := Holds movies\<rparr>"
    by blast
  from push_Inr [OF p] obtain ms where
    ms: "movies = JArr (ms @ [newMovie_json clk ?t ?d ?dir tp vp])" by blast
  have r: "read_file s' ?dir (lit ''metadata.json'') =
      Some (JsonText (metadata_json clk ?t ?d tp vp))"
    using writeFileSync_Inr(3) [OF w, of ?dir "lit ''metadata.json''"] s' by simp
  have c: "moviesFile s' = Holds (JArr (ms @ [newMovie_json clk ?t ?d ?dir tp vp]))"
    using s' ms by simp
  show ?thesis
    using r c metadata_fields [of clk ?t ?d tp vp] newMovie_fields [of clk ?t ?d ?dir tp vp]
    by blast
qed

text \<open>
  C2 (as the code has it).  When \<^verbatim>\<open>movies.json\<close> cannot be read or its text is not
  JSON, the read inside the upload handler yields the empty array: after a submission
  answered 200 the catalog holds exactly one entry, the movie of the reply, built from
  the title and description of the request and the references that \<^verbatim>\<open>metadata.json\<close>
  records.  \<^verbatim>\<open>GET /api/movies\<close> in the same states answers 500 with
  \<^verbatim>\<open>Error reading movies\<close>.
\<close>

theorem unreadable_catalog_read_paths:
  assumes "moviesFile s = Missing \<or> moviesFile s = Garbled"
  shows "read_movies (moviesFile s) = JArr [] \<and>
         list_movies s = Reply 500 (message ''Error reading movies'') \<and>
         (\<forall>clk req b s'. upload_handler clk req s = (Reply 200 b, s') \<longrightarrow>
            (\<exists>tp vp.
               moviesFile s' =
                 Holds (JArr [newMovie_json clk (or_empty (title req))
                   (or_empty (description req))
                   (createMovieFolderName (now_folder clk) (or_empty (title req))) tp vp]) \<and>
               b = Json (JObj
                 [(lit ''message'', JStr (lit ''Movie added successfully'')),
                  (lit ''movie'', newMovie_json clk (or_empty (title req))
                     (or_empty (description req))
                     (createMovieFolderName (now_folder clk) (or_empty (title req))) tp vp),
                  (lit ''folderPath'',
                     JStr (createMovieFolderName (now_folder clk) (or_empty (title req))))]) \<and>
               read_file s' (createMovieFolderName (now_folder clk) (or_empty (title req)))
                 (lit ''metadata.json'') =
                 Some (JsonText (metadata_json clk (or_empty (title req))
                   (or_empty (description req)) tp vp))))"
proof -
  have e: "read_movies (moviesFile s) = JArr []" using assms by auto
  have l: "list_movies s = Reply 500 (message ''Error reading movies'')"
    using assms by (auto simp: list_movies_def)
  have u: "\<exists>tp vp.
       moviesFile s' =
         Holds (JArr [newMovie_json clk (or_empty (title req))
           (or_empty (description req))
           (createMovieFolderName (now_folder clk) (or_empty (title req))) tp vp]) \<and>
       b = Json (JObj
         [(lit ''message'', JStr (lit ''Movie added successfully'')),
          (lit ''movie'', newMovie_json clk (or_empty (title req))
             (or_empty (description req))
             (createMovieFolderName (now_folder clk) (or_empty (title req))) tp vp),
          (lit ''folderPath'',
             JStr (createMovieFolderName (now_folder clk) (or_empty (title req))))]) \<and>
       read_file s' (createMovieFolderName (now_folder clk) (or_empty (title req)))
         (lit ''metadata.json'') =
         Some (JsonText (metadata_json clk (or_empty (title req))
           (or_empty (description req)) tp vp))"
    if run: "upload_handler clk req s = (Reply 200 b, s')" for clk req b s'
  proof -
    let ?dir = "createMovieFolderName (now_folder clk) (or_empty (title req))"
    let ?t = "or_empty (title req)" and ?d = "or_empty (description req)"
    from try_upload_success [OF upload_handler_success [OF run]]
    obtain tp vp s3 s4 movies where
      w: "writeFileSync ?dir (lit ''metadata.json'') (JsonText (metadata_json clk ?t ?d tp vp)) s3
            = Inr s4"
      and p: "push (read_movies (moviesFile s)) (newMovie_json clk ?t ?d ?dir tp vp) = Inr movies"
      and s': "s' = s4\<lparr>moviesFile := Holds movies\<rparr>"
      and b: "b = Json (JObj
           [(lit ''message'', JStr (lit ''Movie added successfully'')),
            (lit ''movie'', newMovie_json clk ?t ?d ?dir tp vp),
            (lit ''folderPath'', JStr ?dir)])"
      by blast
    from p e have m: "movies = JArr [newMovie_json clk ?t ?d ?dir tp vp]" by simp
    have r: "read_file s' ?dir (lit ''metadata.json'') =
        Some (JsonText (metadata_json clk ?t ?d tp vp))"
      using writeFileSync_Inr(3) [OF w, of ?dir "lit ''metadata.json''"] s' by simp
    from m s' b r show ?thesis by auto
  qed
  from e l u show ?thesis by blast
qed

text \<open>
  A catalog file that parses to a value other than an array or \<^verbatim>\<open>null\<close> is not read as
  empty: \<^verbatim>\<open>movies.push\<close> throws, and no submission is answered 200.
\<close>

lemma upload_on_non_array_catalog:
  assumes "moviesFile s = Holds v" and "v \<noteq> JNull" and "\<And>ms. v \<noteq> JArr ms"
  shows "fst (upload_handler clk req s) \<noteq> Reply 200 b"
proof
  assume a: "fst (upload_handler clk req s) = Reply 200 b"
  obtain s' where "upload_handler clk req s = (Reply 200 b, s')"
    using a by (cases "upload_handler clk req s") simp
  from try_upload_success [OF upload_handler_success [OF this]]
  obtain m movies where "push (read_movies (moviesFile s)) m = Inr movies" by blast
  moreover have "read_movies (Holds v) = v" using assms(2) by (cases v) simp_all
  ultimately show False using assms(1,3) push_Inr by fastforce
qed

text \<open>
  C2 as stated fails: with a catalog file whose text is not JSON, \<^verbatim>\<open>GET /api/movies\<close>
  does not answer with an empty sequence.
\<close>

theorem list_movies_garbled_counterexample:
  "list_movies (initial_fs\<lparr>moviesFile := Garbled\<rparr>) \<noteq> Reply 200 (Json (JArr []))"
  by (simp add: list_movies_def initial_fs_def message_def)

lemma url_request_run:
  "moviesFile s0 = c \<Longrightarrow> c = Garbled \<or> c = Holds (JArr []) \<Longrightarrow> temp s0 = [] \<Longrightarrow> folders s0 = [] \<Longrightarrow>
   \<exists>b s'. upload_handler sample_clock url_request s0 = (Reply 200 b, s')"
  by (cases s0)
     (auto simp add: run_handler run_fs sample_clock_def url_request_def Let_def
        createMovieFolderName_def dec.simps run_sanitize)

theorem metadata_agrees_with_catalog_entry_witness:
  "\<exists>b s' meta movies movie.
     upload_handler sample_clock url_request initial_fs = (Reply 200 b, s') \<and>
     read_file s' (lit ''1700000000003-a'') (lit ''metadata.json'') = Some (JsonText meta) \<and>
     moviesFile s' = Holds (JArr (movies @ [movie])) \<and>
     field (lit ''id'') meta = Some (JStr (lit ''1700000000004'')) \<and>
     field (lit ''id'') movie = Some (JStr (lit ''1700000000004'')) \<and>
     field (lit ''title'') meta = field (lit ''title'') movie \<and>
     field (lit ''description'') meta = field (lit ''description'') movie \<and>
     field (lit ''thumbnail'') meta = field (lit ''thumbnail'') movie \<and>
     field (lit ''video'') meta = field (lit ''video'') movie"
proof -
  obtain b s' where run: "upload_handler sample_clock url_request initial_fs = (Reply 200 b, s')"
    using url_request_run [of initial_fs] by (auto simp: initial_fs_def)
  have t: "or_empty (title url_request) = lit ''a''"
    by (simp add: url_request_def or_empty_def truthy_def lit_def)
  have n: "now_folder sample_clock = 1700000000003" "now_id sample_clock = 1700000000004"
    by (simp_all add: sample_clock_def)
  from metadata_agrees_with_catalog_entry [OF run] run show ?thesis
    unfolding t n folder_a dec_sample_id by metis
qed

theorem unreadable_catalog_read_paths_witness:
  "read_movies Garbled = JArr [] \<and>
   list_movies (initial_fs\<lparr>moviesFile := Garbled\<rparr>) =
     Reply 500 (message ''Error reading movies'') \<and>
   (\<exists>b s' movie tp vp.
      upload_handler sample_clock url_request (initial_fs\<lparr>moviesFile := Garbled\<rparr>) =
        (Reply 200 b, s') \<and>
      moviesFile s' = Holds (JArr [movie]) \<and>
      movie = newMovie_json sample_clock (lit ''a'') (lit ''b'') (lit ''1700000000003-a'') tp vp \<and>
      b = Json (JObj
         [(lit ''message'', JStr (lit ''Movie added successfully'')),
          (lit ''movie'', movie),
          (lit ''folderPath'', JStr (lit ''1700000000003-a''))]) \<and>
      field (lit ''title'') movie = Some (JStr (lit ''a'')))"
proof -
  let ?s = "initial_fs\<lparr>moviesFile := Garbled\<rparr>"
  have g: "moviesFile ?s = Missing \<or> moviesFile ?s = Garbled" by simp
  obtain b s' where run: "upload_handler sample_clock url_request ?s = (Reply 200 b, s')"
    using url_request_run [of ?s] by (auto simp: initial_fs_def)
  have t: "or_empty (title url_request) = lit ''a''" "or_empty (description url_request) = lit ''b''"
    by (simp_all add: url_request_def or_empty_def truthy_def lit_def)
  have n: "now_folder sample_clock = 1700000000003"
    by (simp add: sample_clock_def)
  note th = unreadable_catalog_read_paths [OF g]
  from th have 1: "read_movies (moviesFile ?s) = JArr []"
    and 2: "list_movies ?s = Reply 500 (message ''Error reading movies'')"
    by blast+
  from th run obtain tp vp where
    "moviesFile s' = Holds (JArr [newMovie_json sample_clock (or_empty (title url_request))
        (or_empty (description url_request))
        (createMovieFolderName (now_folder sample_clock) (or_empty (title url_request))) tp vp])"
    "b = Json (JObj
         [(lit ''message'', JStr (lit ''Movie added successfully'')),
          (lit ''movie'', newMovie_json sample_clock (or_empty (title url_request))
             (or_empty (description url_request))
             (createMovieFolderName (now_folder sample_clock) (or_empty (title url_request)))
             tp vp),
          (lit ''folderPath'',
             JStr (createMovieFolderName (now_folder sample_clock)
               (or_empty (title url_request))))])"
    by blast
  then have "moviesFile s' = Holds (JArr [newMovie_json sample_clock (lit ''a'') (lit ''b'')
        (lit ''1700000000003-a'') tp vp])"
    "b = Json (JObj
         [(lit ''message'', JStr (lit ''Movie added successfully'')),
          (lit ''movie'', newMovie_json sample_clock (lit ''a'') (lit ''b'')
             (lit ''1700000000003-a'') tp vp),
          (lit ''folderPath'', JStr (lit ''1700000000003-a''))])"
    unfolding t n folder_a by simp_all
  with run 1 2 newMovie_fields(2) [of sample_clock "lit ''a''" "lit ''b''" "lit ''1700000000003-a''" tp vp]
  show ?thesis by auto
qed

section \<open>Resolving the two slots\<close>

lemma resolve_slot_total:
  assumes "existsSync dir s"
    and "\<And>f. upl = Some f \<Longrightarrow> map_of (temp s) (filename f) \<noteq> None"
  shows "\<exists>p s'. resolve_slot slot dir upl url s = Inr (p, s')"
proof (cases upl)
  case None
  show ?thesis
  proof (cases "truthy url")
    case True
    then obtain u where u: "url = Some u" "u \<noteq> []"
      by (auto simp: truthy_def split: option.splits)
    obtain s' where "writeFileSync dir (slot @ lit ''-url.txt'') (Text u) s = Inr s'"
      using writeFileSync_ok [OF assms(1)] by blast
    with None u show ?thesis by (simp add: resolve_slot_def)
  next
    case False
    with None show ?thesis by (simp add: resolve_slot_nothing)
  qed
next
  case (Some f)
  with assms(2) obtain b where "map_of (temp s) (filename f) = Some b" by auto
  from renameSync_ok [OF this assms(1)] obtain s' where
    "renameSync (filename f) dir s = Inr s'" by blast
  with Some show ?thesis by (simp add: resolve_slot_def)
qed

lemma resolve_slot_temp:
  assumes "resolve_slot slot dir upl url s = Inr (p, s')"
  shows "temp s' =
    (case upl of None \<Rightarrow> temp s | Some f \<Rightarrow> AList.delete (filename f) (temp s))"
proof (cases upl)
  case None
  show ?thesis
  proof (cases "truthy url")
    case True
    then obtain u where u: "url = Some u" "u \<noteq> []"
      by (auto simp: truthy_def split: option.splits)
    with assms None obtain s'' where
      "writeFileSync dir (slot @ lit ''-url.txt'') (Text u) s = Inr s''" "s' = s''"
      by (auto simp: resolve_slot_def split: sum.splits)
    with writeFileSync_Inr(1) None show ?thesis by simp
  next
    case False
    with assms None show ?thesis by (simp add: resolve_slot_nothing)
  qed
next
  case (Some f)
  with assms obtain s'' where "renameSync (filename f) dir s = Inr s''" "s' = s''"
    by (auto simp: resolve_slot_def split: sum.splits)
  with renameSync_Inr(1) Some show ?thesis by simp
qed

lemma resolve_slot_file:
  assumes "resolve_slot slot dir (Some f) url s = Inr (p, s')"
  shows "p = Some (lit ''/uploads/'' @ dir @ lit ''/'' @ filename f)"
    and "\<exists>b. map_of (temp s) (filename f) = Some b \<and>
           read_file s' dir (filename f) = Some (Bytes b)"
    and "read_file s' d n = (if d = dir \<and> n = filename f then read_file s' dir (filename f) else read_file s d n)"
proof -
  from assms obtain s'' where r: "renameSync (filename f) dir s = Inr s''"
    and p: "p = Some (lit ''/uploads/'' @ dir @ lit ''/'' @ filename f)" and s': "s' = s''"
    by (auto simp: resolve_slot_def split: sum.splits)
  show "p = Some (lit ''/uploads/'' @ dir @ lit ''/'' @ filename f)" by (rule p)
  from renameSync_Inr(3) [OF r, of dir "filename f"] s'
  show "\<exists>b. map_of (temp s) (filename f) = Some b \<and>
           read_file s' dir (filename f) = Some (Bytes b)" by auto
  from renameSync_Inr(3) [OF r, of d n] s'
  show "read_file s' d n = (if d = dir \<and> n = filename f then read_file s' dir (filename f) else read_file s d n)"
    by auto
qed

lemma resolve_slot_url:
  assumes "resolve_slot slot dir None (Some u) s = Inr (p, s')" and "u \<noteq> []"
  shows "p = Some u"
    and "read_file s' d n = (if d = dir \<and> n = slot @ lit ''-url.txt'' then Some (Text u) else read_file s d n)"
proof -
  from assms obtain s'' where w: "writeFileSync dir (slot @ lit ''-url.txt'') (Text u) s = Inr s''"
    and p: "p = Some u" and s': "s' = s''"
    by (auto simp: resolve_slot_def split: sum.splits)
  show "p = Some u" by (rule p)
  from writeFileSync_Inr(3) [OF w, of d n] s'
  show "read_file s' d n = (if d = dir \<and> n = slot @ lit ''-url.txt'' then Some (Text u) else read_file s d n)"
    by simp
qed

lemma resolve_slot_none:
  assumes "resolve_slot slot dir None url s = Inr (p, s')" and "\<not> truthy url"
  shows "p = None" and "s' = s"
  using assms by (auto simp: resolve_slot_def not_truthy_iff)

text \<open>The stages of an upload that passes the first test.\<close>

lemma upload_stages:
  assumes ok: "truthy (title req)" "truthy (description req)"
    and tf: "\<And>f. thumbnail req = Some f \<Longrightarrow> map_of (temp s) (filename f) \<noteq> None"
    and vf: "\<And>f. video req = Some f \<Longrightarrow> map_of (temp s) (filename f) \<noteq> None"
    and ne: "\<And>f g. thumbnail req = Some f \<Longrightarrow> video req = Some g \<Longrightarrow> filename f \<noteq> filename g"
  shows "\<exists>s1 tp s2 vp s3 s4.
     temp s1 = temp s \<and> (\<forall>d n. read_file s1 d n = read_file s d n) \<and>
     resolve_slot (lit ''thumbnail'') (createMovieFolderName (now_folder clk) (or_empty (title req)))
        (thumbnail req) (thumbnailURL req) s1 = Inr (tp, s2) \<and>
     resolve_slot (lit ''video'') (createMovieFolderName (now_folder clk) (or_empty (title req)))
        (video req) (videoURL req) s2 = Inr (vp, s3) \<and>
     writeFileSync (createMovieFolderName (now_folder clk) (or_empty (title req)))
        (lit ''metadata.json'')
        (JsonText (metadata_json clk (or_empty (title req)) (or_empty (description req)) tp vp))
        s3 = Inr s4 \<and>
     temp (snd (upload_handler clk req s)) = temp s4 \<and>
     folders (snd (upload_handler clk req s)) = folders s4"
proof -
  let ?dir = "createMovieFolderName (now_folder clk) (or_empty (title req))"
  obtain s1 where s1: "(if existsSync ?dir s then Inr s else mkdirSync ?dir s) = Inr s1"
    "temp s1 = temp s" "existsSync ?dir s1" "\<forall>d n. read_file s1 d n = read_file s d n"
    using ensure_folder [of ?dir s] by blast
  obtain tp s2 where
    t: "resolve_slot (lit ''thumbnail'') ?dir (thumbnail req) (thumbnailURL req) s1 = Inr (tp, s2)"
    using resolve_slot_total [OF s1(3), of "thumbnail req"] tf s1(2) by fastforce
  have e2: "existsSync ?dir s2" using resolve_slot_Inr(2) [OF t] s1(3) by simp
  have t2: "map_of (temp s2) (filename g) \<noteq> None" if "video req = Some g" for g
    using resolve_slot_temp [OF t] s1(2) vf [OF that] ne [OF _ that]
    by (auto simp: delete_conv' split: option.splits)
  obtain vp s3 where
    v: "resolve_slot (lit ''video'') ?dir (video req) (videoURL req) s2 = Inr (vp, s3)"
    using resolve_slot_total [OF e2, of "video req"] t2 by fastforce
  have e3: "existsSync ?dir s3" using resolve_slot_Inr(2) [OF v] e2 by simp
  obtain s4 where w: "writeFileSync ?dir (lit ''metadata.json'')
        (JsonText (metadata_json clk (or_empty (title req)) (or_empty (description req)) tp vp))
        s3 = Inr s4"
    using writeFileSync_ok [OF e3] by blast
  have rm: "rmdirSync ?dir s4 = Inl ENOTEMPTY" using w by (rule rmdirSync_after_write)
  have "temp (snd (upload_handler clk req s)) = temp s4 \<and>
        folders (snd (upload_handler clk req s)) = folders s4"
    using ok s1(1) t v w rm
    by (auto simp: upload_handler_def try_upload_def Let_def split: sum.splits)
  with s1(2,4) t v w show ?thesis by blast
qed

lemma resolve_slot_frame:
  assumes "resolve_slot slot dir upl url s = Inr (p, s')"
    and "n \<noteq> slot @ lit ''-url.txt''"
    and "\<And>f. upl = Some f \<Longrightarrow> n \<noteq> filename f"
  shows "read_file s' d n = read_file s d n"
proof (cases upl)
  case None
  show ?thesis
  proof (cases "truthy url")
    case True
    then obtain u where u: "url = Some u" "u \<noteq> []"
      by (auto simp: truthy_def split: option.splits)
    from resolve_slot_url(2) [OF assms(1) [unfolded None u(1)] u(2), of d n] assms(2)
    show ?thesis by simp
  next
    case False
    with assms(1) None show ?thesis by (simp add: resolve_slot_nothing)
  qed
next
  case (Some f)
  from resolve_slot_file(3) [OF assms(1) [unfolded Some], of d n] assms(3) [OF Some]
  show ?thesis by simp
qed

lemma resolve_slot_file_frame:
  assumes "resolve_slot slot dir (Some f) url s = Inr (p, s')" and "n \<noteq> filename f"
  shows "read_file s' d n = read_file s d n"
  using resolve_slot_file(3) [OF assms(1), of d n] assms(2) by simp

lemma read_file_folders: "folders a = folders b \<Longrightarrow> read_file a d n = read_file b d n"
  by (simp add: read_file_def)

lemma multer_names:
  "multer_filename P (lit ''thumbnail'') n1 o1 \<noteq> multer_filename P (lit ''video'') n2 o2"
  "multer_filename P (lit ''thumbnail'') n1 o1 \<noteq> lit ''thumbnail'' @ lit ''-url.txt''"
  "multer_filename P (lit ''thumbnail'') n1 o1 \<noteq> lit ''video'' @ lit ''-url.txt''"
  "multer_filename P (lit ''thumbnail'') n1 o1 \<noteq> lit ''metadata.json''"
  "multer_filename P (lit ''video'') n1 o1 \<noteq> lit ''thumbnail'' @ lit ''-url.txt''"
  "multer_filename P (lit ''video'') n1 o1 \<noteq> lit ''video'' @ lit ''-url.txt''"
  "multer_filename P (lit ''video'') n1 o1 \<noteq> lit ''metadata.json''"
proof -
  obtain x xs where d: "dec n1 = x # xs" "is_digit x" using dec_Cons by blast
  show "multer_filename P (lit ''thumbnail'') n1 o1 \<noteq> multer_filename P (lit ''video'') n2 o2"
    by (rule thumbnail_video_names_differ)
  show "multer_filename P (lit ''thumbnail'') n1 o1 \<noteq> lit ''thumbnail'' @ lit ''-url.txt''"
    using d by (auto simp: multer_filename_def lit_simps is_digit_def cu_def Let_def)
  show "multer_filename P (lit ''thumbnail'') n1 o1 \<noteq> lit ''video'' @ lit ''-url.txt''"
    by (simp add: multer_filename_def lit_simps cu_def Let_def)
  show "multer_filename P (lit ''thumbnail'') n1 o1 \<noteq> lit ''metadata.json''"
    by (simp add: multer_filename_def lit_simps cu_def Let_def)
  show "multer_filename P (lit ''video'') n1 o1 \<noteq> lit ''thumbnail'' @ lit ''-url.txt''"
    by (simp add: multer_filename_def lit_simps cu_def Let_def)
  show "multer_filename P (lit ''video'') n1 o1 \<noteq> lit ''video'' @ lit ''-url.txt''"
    using d by (auto simp: multer_filename_def lit_simps is_digit_def cu_def Let_def)
  show "multer_filename P (lit ''video'') n1 o1 \<noteq> lit ''metadata.json''"
    by (simp add: multer_filename_def lit_simps cu_def Let_def)
qed

lemma sidecar_names:
  "lit ''thumbnail'' @ lit ''-url.txt'' = lit ''thumbnail-url.txt''"
  "lit ''video'' @ lit ''-url.txt'' = lit ''video-url.txt''"
  "lit ''thumbnail-url.txt'' \<noteq> lit ''video-url.txt''"
  "lit ''thumbnail-url.txt'' \<noteq> lit ''metadata.json''"
  "lit ''video-url.txt'' \<noteq> lit ''metadata.json''"
  by (simp_all add: lit_def cu_def)

lemma or_empty_simps: "or_empty None = []" "u \<noteq> [] \<Longrightarrow> or_empty (Some u) = u"
  by (simp_all add: or_empty_def truthy_def)

lemma stored_ref_metadata:
  assumes "writeFileSync dir (lit ''metadata.json'') (JsonText (metadata_json clk t d tp vp)) s3
             = Inr s4"
    and "folders s' = folders s4"
  shows "stored_ref s' dir (lit ''thumbnail'') = Some (JStr (or_empty tp))"
    and "stored_ref s' dir (lit ''video'') = Some (JStr (or_empty vp))"
    and "n \<noteq> lit ''metadata.json'' \<Longrightarrow> read_file s' dir n = read_file s3 dir n"
proof -
  have "read_file s' dir (lit ''metadata.json'') = Some (JsonText (metadata_json clk t d tp vp))"
    using writeFileSync_Inr(3) [OF assms(1), of dir "lit ''metadata.json''"]
      read_file_folders [OF assms(2)] by simp
  then show "stored_ref s' dir (lit ''thumbnail'') = Some (JStr (or_empty tp))"
    and "stored_ref s' dir (lit ''video'') = Some (JStr (or_empty vp))"
    by (simp_all add: stored_ref_def metadata_fields)
  show "read_file s' dir n = read_file s3 dir n" if "n \<noteq> lit ''metadata.json''"
    using writeFileSync_Inr(3) [OF assms(1), of dir n] read_file_folders [OF assms(2)] that
    by simp
qed

lemma uploads_ref_not_Nil: "lit ''/uploads/'' \<noteq> []"
  by (simp add: lit_def)

lemmas sidecar_not_upload = multer_names(2,3,5,6) [unfolded sidecar_names(1,2), THEN not_sym]

text \<open>What the handler may rely on when multer has stored the files of the request.\<close>

lemma multer_stored_files:
  assumes "multer_stored P clk req s"
  shows "thumbnail req = Some f \<Longrightarrow>
           filename f = multer_filename P (lit ''thumbnail'') (now_thumbnail clk) (originalname f) \<and>
           map_of (temp s) (filename f) \<noteq> None"
    and "video req = Some g \<Longrightarrow>
           filename g = multer_filename P (lit ''video'') (now_video clk) (originalname g) \<and>
           map_of (temp s) (filename g) \<noteq> None"
    and "thumbnail req = Some f \<Longrightarrow> video req = Some g \<Longrightarrow> filename f \<noteq> filename g"
proof -
  show 1: "filename f = multer_filename P (lit ''thumbnail'') (now_thumbnail clk) (originalname f) \<and>
      map_of (temp s) (filename f) \<noteq> None" if "thumbnail req = Some f" for f
    using assms that by (auto simp: multer_stored_def stored_file_def)
  show 2: "filename g = multer_filename P (lit ''video'') (now_video clk) (originalname g) \<and>
      map_of (temp s) (filename g) \<noteq> None" if "video req = Some g" for g
    using assms that by (auto simp: multer_stored_def stored_file_def)
  show "filename f \<noteq> filename g" if "thumbnail req = Some f" "video req = Some g"
    using 1 [OF that(1)] 2 [OF that(2)] multer_names(1) [of P] by simp
qed

lemma handler_stages:
  assumes ok: "truthy (title req)" "truthy (description req)"
    and st: "multer_stored P clk req s"
  obtains s1 tp s2 vp s3 s4 where
    "temp s1 = temp s"
    and "\<And>d n. read_file s1 d n = read_file s d n"
    and "resolve_slot (lit ''thumbnail'')
           (createMovieFolderName (now_folder clk) (or_empty (title req)))
           (thumbnail req) (thumbnailURL req) s1 = Inr (tp, s2)"
    and "resolve_slot (lit ''video'')
           (createMovieFolderName (now_folder clk) (or_empty (title req)))
           (video req) (videoURL req) s2 = Inr (vp, s3)"
    and "writeFileSync (createMovieFolderName (now_folder clk) (or_empty (title req)))
           (lit ''metadata.json'')
           (JsonText (metadata_json clk (or_empty (title req)) (or_empty (description req)) tp vp))
           s3 = Inr s4"
    and "temp (snd (upload_handler clk req s)) = temp s4"
    and "folders (snd (upload_handler clk req s)) = folders s4"
proof -
  note mf = multer_stored_files [OF st]
  have tf: "map_of (temp s) (filename f) \<noteq> None" if "thumbnail req = Some f" for f
    using mf(1) [OF that] by blast
  have vf: "map_of (temp s) (filename f) \<noteq> None" if "video req = Some f" for f
    using mf(2) [OF that] by blast
  from upload_stages [OF ok tf vf mf(3), of clk]
  obtain s1 tp s2 vp s3 s4 where st:
    "temp s1 = temp s" "\<forall>d n. read_file s1 d n = read_file s d n"
    "resolve_slot (lit ''thumbnail'') (createMovieFolderName (now_folder clk) (or_empty (title req)))
        (thumbnail req) (thumbnailURL req) s1 = Inr (tp, s2)"
    "resolve_slot (lit ''video'') (createMovieFolderName (now_folder clk) (or_empty (title req)))
        (video req) (videoURL req) s2 = Inr (vp, s3)"
    "writeFileSync (createMovieFolderName (now_folder clk) (or_empty (title req)))
        (lit ''metadata.json'')
        (JsonText (metadata_json clk (or_empty (title req)) (or_empty (description req)) tp vp))
        s3 = Inr s4"
    "temp (snd (upload_handler clk req s)) = temp s4"
    "folders (snd (upload_handler clk req s)) = folders s4"
    by blast
  have r0: "read_file s1 d n = read_file s d n" for d n using st(2) by simp
  show ?thesis using that [OF st(1) r0 st(3-7)] .
qed

text \<open>
  C6.  For each slot of a submission that passes the first test, with the files of the
  request stored by multer: an uploaded file takes precedence, whatever URL was sent for
  the slot (the reference is the public path of the moved file and the sidecar
  \<^verbatim>\<open>{slot}-url.txt\<close> is left as it was); with no file and a non-empty URL the reference
  is the URL verbatim and \<^verbatim>\<open>{slot}-url.txt\<close> in the item directory holds exactly the
  URL; with neither, the reference is empty and the sidecar is left as it was.
\<close>

theorem slot_source_priority:
  fixes P clk req s
  defines "dir \<equiv> createMovieFolderName (now_folder clk) (or_empty (title req))"
    and "s' \<equiv> snd (upload_handler clk req s)"
  assumes ok: "truthy (title req)" "truthy (description req)"
    and ms: "multer_stored P clk req s"
  shows
   "(\<forall>f. thumbnail req = Some f \<longrightarrow>
        stored_ref s' dir (lit ''thumbnail'') =
          Some (JStr (lit ''/uploads/'' @ dir @ lit ''/'' @ filename f)) \<and>
        read_file s' dir (lit ''thumbnail-url.txt'') = read_file s dir (lit ''thumbnail-url.txt'')) \<and>
    (\<forall>u. thumbnail req = None \<and> thumbnailURL req = Some u \<and> u \<noteq> [] \<longrightarrow>
        stored_ref s' dir (lit ''thumbnail'') = Some (JStr u) \<and>
        read_file s' dir (lit ''thumbnail-url.txt'') = Some (Text u)) \<and>
    (thumbnail req = None \<and> (thumbnailURL req = None \<or> thumbnailURL req = Some []) \<longrightarrow>
        stored_ref s' dir (lit ''thumbnail'') = Some (JStr []) \<and>
        read_file s' dir (lit ''thumbnail-url.txt'') = read_file s dir (lit ''thumbnail-url.txt'')) \<and>
    (\<forall>g. video req = Some g \<longrightarrow>
        stored_ref s' dir (lit ''video'') =
          Some (JStr (lit ''/uploads/'' @ dir @ lit ''/'' @ filename g)) \<and>
        read_file s' dir (lit ''video-url.txt'') = read_file s dir (lit ''video-url.txt'')) \<and>
    (\<forall>u. video req = None \<and> videoURL req = Some u \<and> u \<noteq> [] \<longrightarrow>
        stored_ref s' dir (lit ''video'') = Some (JStr u) \<and>
        read_file s' dir (lit ''video-url.txt'') = Some (Text u)) \<and>
    (video req = None \<and> (videoURL req = None \<or> videoURL req = Some []) \<longrightarrow>
        stored_ref s' dir (lit ''video'') = Some (JStr []) \<and>
        read_file s' dir (lit ''video-url.txt'') = read_file s dir (lit ''video-url.txt''))"
proof -
  let ?TS = "lit ''thumbnail-url.txt''" and ?VS = "lit ''video-url.txt''"
  note mf = multer_stored_files [OF ms]
  show ?thesis
  proof (rule handler_stages [OF ok ms])
  fix s1 tp s2 vp s3 s4
  assume r1: "\<And>d n. read_file s1 d n = read_file s d n"
    and t0: "resolve_slot (lit ''thumbnail'')
           (createMovieFolderName (now_folder clk) (or_empty (title req)))
           (thumbnail req) (thumbnailURL req) s1 = Inr (tp, s2)"
    and v0: "resolve_slot (lit ''video'')
           (createMovieFolderName (now_folder clk) (or_empty (title req)))
           (video req) (videoURL req) s2 = Inr (vp, s3)"
    and w0: "writeFileSync (createMovieFolderName (now_folder clk) (or_empty (title req)))
           (lit ''metadata.json'')
           (JsonText (metadata_json clk (or_empty (title req)) (or_empty (description req)) tp vp))
           s3 = Inr s4"
    and f0: "folders (snd (upload_handler clk req s)) = folders s4"
  note t = t0 [folded dir_def] and v = v0 [folded dir_def] and w = w0 [folded dir_def]
    and f = f0 [folded s'_def]
  note sr = stored_ref_metadata [OF w f]
  have tsv: "read_file s' dir ?TS = read_file s2 dir ?TS"
  proof -
    have "read_file s3 dir ?TS = read_file s2 dir ?TS"
    proof (rule resolve_slot_frame [OF v])
      show "?TS \<noteq> lit ''video'' @ lit ''-url.txt''" by (simp add: sidecar_names)
      show "?TS \<noteq> filename g" if "video req = Some g" for g
        using mf(2) [OF that] by (simp add: sidecar_not_upload(3))
    qed
    with sr(3) [of ?TS] show ?thesis by (simp add: sidecar_names)
  qed
  have vsv: "read_file s2 dir ?VS = read_file s dir ?VS"
  proof -
    have "read_file s2 dir ?VS = read_file s1 dir ?VS"
    proof (rule resolve_slot_frame [OF t])
      show "?VS \<noteq> lit ''thumbnail'' @ lit ''-url.txt''" using sidecar_names by simp
      show "?VS \<noteq> filename g" if "thumbnail req = Some g" for g
        using mf(1) [OF that] by (simp add: sidecar_not_upload(2))
    qed
    with r1 show ?thesis by simp
  qed
  have vs4: "read_file s' dir ?VS = read_file s3 dir ?VS"
    using sr(3) [of ?VS] by (simp add: sidecar_names)
  have T1: "stored_ref s' dir (lit ''thumbnail'') =
          Some (JStr (lit ''/uploads/'' @ dir @ lit ''/'' @ filename f)) \<and>
        read_file s' dir ?TS = read_file s dir ?TS" if e: "thumbnail req = Some f" for f
  proof -
    from resolve_slot_file(1) [OF t [unfolded e]]
    have "or_empty tp = lit ''/uploads/'' @ dir @ lit ''/'' @ filename f"
      by (simp add: or_empty_simps uploads_ref_not_Nil)
    moreover have "read_file s2 dir ?TS = read_file s1 dir ?TS"
      using resolve_slot_file_frame [OF t [unfolded e], of ?TS dir] mf(1) [OF e]
      by (simp add: sidecar_not_upload(1))
    ultimately show ?thesis using sr(1) tsv r1 by simp
  qed
  have T2: "stored_ref s' dir (lit ''thumbnail'') = Some (JStr u) \<and>
        read_file s' dir ?TS = Some (Text u)"
    if e: "thumbnail req = None" and that2: "thumbnailURL req = Some u" and that3: "u \<noteq> []" for u
  proof -
    note ru = resolve_slot_url [OF t [unfolded e that2] that3]
    from ru(1) ru(2) [of dir ?TS] sr(1) tsv that3 show ?thesis
      by (simp add: or_empty_simps sidecar_names)
  qed
  have T3: "stored_ref s' dir (lit ''thumbnail'') = Some (JStr []) \<and>
        read_file s' dir ?TS = read_file s dir ?TS"
    if e: "thumbnail req = None" and that2: "thumbnailURL req = None \<or> thumbnailURL req = Some []"
  proof -
    have "\<not> truthy (thumbnailURL req)" using that2 by (simp add: not_truthy_iff)
    note rn = resolve_slot_none [OF t [unfolded e] this]
    from rn sr(1) tsv r1 show ?thesis by (simp add: or_empty_simps)
  qed
  have V1: "stored_ref s' dir (lit ''video'') =
          Some (JStr (lit ''/uploads/'' @ dir @ lit ''/'' @ filename g)) \<and>
        read_file s' dir ?VS = read_file s dir ?VS" if e: "video req = Some g" for g
  proof -
    from resolve_slot_file(1) [OF v [unfolded e]]
    have "or_empty vp = lit ''/uploads/'' @ dir @ lit ''/'' @ filename g"
      by (simp add: or_empty_simps uploads_ref_not_Nil)
    moreover have "read_file s3 dir ?VS = read_file s2 dir ?VS"
      using resolve_slot_file_frame [OF v [unfolded e], of ?VS dir] mf(2) [OF e]
      by (simp add: sidecar_not_upload(4))
    ultimately show ?thesis using sr(2) vs4 vsv by simp
  qed
  have V2: "stored_ref s' dir (lit ''video'') = Some (JStr u) \<and>
        read_file s' dir ?VS = Some (Text u)"
    if e: "video req = None" and that2: "videoURL req = Some u" and that3: "u \<noteq> []" for u
  proof -
    note ru = resolve_slot_url [OF v [unfolded e that2] that3]
    from ru(1) ru(2) [of dir ?VS] sr(2) vs4 that3 show ?thesis
      by (simp add: or_empty_simps sidecar_names)
  qed
  have V3: "stored_ref s' dir (lit ''video'') = Some (JStr []) \<and>
        read_file s' dir ?VS = read_file s dir ?VS"
    if e: "video req = None" and that2: "videoURL req = None \<or> videoURL req = Some []"
  proof -
    have "\<not> truthy (videoURL req)" using that2 by (simp add: not_truthy_iff)
    note rn = resolve_slot_none [OF v [unfolded e] this]
    from rn sr(2) vs4 vsv show ?thesis by (simp add: or_empty_simps)
  qed
  show ?thesis
    by (intro conjI allI impI) (use T1 T2 T3 V1 V2 V3 in \<open>blast+\<close>)
  qed
qed

text \<open>
  C7.  For every uploaded file of a submission that passes the first test, in either
  slot: the stored name is \<^verbatim>\<open>{slot}-{Date.now()}-{sanitized basename}{extension}\<close>;
  the file is in \<^verbatim>\<open>uploads/temp\<close> under that name when the handler starts, and
  afterwards it is no longer there but in the item directory, under the same name and
  with the same bytes; and the reference of the slot is
  \<^verbatim>\<open>/uploads/{directory}/{name}\<close>.
\<close>

theorem uploaded_file_is_moved:
  fixes P clk req s
  defines "dir \<equiv> createMovieFolderName (now_folder clk) (or_empty (title req))"
    and "s' \<equiv> snd (upload_handler clk req s)"
  assumes ok: "truthy (title req)" "truthy (description req)"
    and ms: "multer_stored P clk req s"
  shows
   "(\<forall>f. thumbnail req = Some f \<longrightarrow>
       filename f = lit ''thumbnail'' @ lit ''-'' @ dec (now_thumbnail clk) @ lit ''-'' @
         sanitizeFilename (basename P (originalname f) (extname P (originalname f))) @
         extname P (originalname f) \<and>
       map_of (temp s) (filename f) \<noteq> None \<and>
       map_of (temp s') (filename f) = None \<and>
       read_file s' dir (filename f) = map_option Bytes (map_of (temp s) (filename f)) \<and>
       stored_ref s' dir (lit ''thumbnail'') =
         Some (JStr (lit ''/uploads/'' @ dir @ lit ''/'' @ filename f))) \<and>
    (\<forall>g. video req = Some g \<longrightarrow>
       filename g = lit ''video'' @ lit ''-'' @ dec (now_video clk) @ lit ''-'' @
         sanitizeFilename (basename P (originalname g) (extname P (originalname g))) @
         extname P (originalname g) \<and>
       map_of (temp s) (filename g) \<noteq> None \<and>
       map_of (temp s') (filename g) = None \<and>
       read_file s' dir (filename g) = map_option Bytes (map_of (temp s) (filename g)) \<and>
       stored_ref s' dir (lit ''video'') =
         Some (JStr (lit ''/uploads/'' @ dir @ lit ''/'' @ filename g)))"
proof -
  note mf = multer_stored_files [OF ms]
  show ?thesis
  proof (rule handler_stages [OF ok ms])
  fix s1 tp s2 vp s3 s4
  assume t1: "temp s1 = temp s"
    and t0: "resolve_slot (lit ''thumbnail'')
           (createMovieFolderName (now_folder clk) (or_empty (title req)))
           (thumbnail req) (thumbnailURL req) s1 = Inr (tp, s2)"
    and v0: "resolve_slot (lit ''video'')
           (createMovieFolderName (now_folder clk) (or_empty (title req)))
           (video req) (videoURL req) s2 = Inr (vp, s3)"
    and w0: "writeFileSync (createMovieFolderName (now_folder clk) (or_empty (title req)))
           (lit ''metadata.json'')
           (JsonText (metadata_json clk (or_empty (title req)) (or_empty (description req)) tp vp))
           s3 = Inr s4"
    and t4: "temp (snd (upload_handler clk req s)) = temp s4"
    and f0: "folders (snd (upload_handler clk req s)) = folders s4"
  note t = t0 [folded dir_def] and v = v0 [folded dir_def] and w = w0 [folded dir_def]
    and f = f0 [folded s'_def]
  note sr = stored_ref_metadata [OF w f]
  have tmp: "temp s' = temp s3"
    using t4 writeFileSync_Inr(1) [OF w] by (simp add: s'_def)
  have T: "filename f = lit ''thumbnail'' @ lit ''-'' @ dec (now_thumbnail clk) @ lit ''-'' @
         sanitizeFilename (basename P (originalname f) (extname P (originalname f))) @
         extname P (originalname f) \<and>
       map_of (temp s) (filename f) \<noteq> None \<and>
       map_of (temp s') (filename f) = None \<and>
       read_file s' dir (filename f) = map_option Bytes (map_of (temp s) (filename f)) \<and>
       stored_ref s' dir (lit ''thumbnail'') =
         Some (JStr (lit ''/uploads/'' @ dir @ lit ''/'' @ filename f))"
    if e: "thumbnail req = Some f" for f
  proof -
    from mf(1) [OF e] have
      tn: "filename f = multer_filename P (lit ''thumbnail'') (now_thumbnail clk) (originalname f)"
      and a: "map_of (temp s) (filename f) \<noteq> None" by blast+
    have n: "filename f = lit ''thumbnail'' @ lit ''-'' @ dec (now_thumbnail clk) @ lit ''-'' @
         sanitizeFilename (basename P (originalname f) (extname P (originalname f))) @
         extname P (originalname f)"
      unfolding tn by (simp add: multer_filename_def Let_def)
    note rf = resolve_slot_file [OF t [unfolded e]]
    have "temp s2 = AList.delete (filename f) (temp s1)"
      using resolve_slot_temp [OF t] e by simp
    then have "map_of (temp s3) (filename f) = None"
      using resolve_slot_temp [OF v] by (cases "video req") (simp_all add: delete_conv')
    then have b: "map_of (temp s') (filename f) = None" using tmp by simp
    from rf(2) t1 have r2: "read_file s2 dir (filename f) =
        map_option Bytes (map_of (temp s) (filename f))" by auto
    have "read_file s3 dir (filename f) = read_file s2 dir (filename f)"
    proof (rule resolve_slot_frame [OF v])
      show "filename f \<noteq> lit ''video'' @ lit ''-url.txt''"
        unfolding tn by (rule multer_names(3))
      show "filename f \<noteq> filename g" if "video req = Some g" for g
        using mf(3) [OF e that] .
    qed
    with r2 sr(3) [of "filename f"] multer_names(4) [of P] tn
    have c: "read_file s' dir (filename f) = map_option Bytes (map_of (temp s) (filename f))"
      by simp
    from rf(1) have "or_empty tp = lit ''/uploads/'' @ dir @ lit ''/'' @ filename f"
      by (simp add: or_empty_simps uploads_ref_not_Nil)
    with sr(1) have d: "stored_ref s' dir (lit ''thumbnail'') =
        Some (JStr (lit ''/uploads/'' @ dir @ lit ''/'' @ filename f))" by simp
    from n a b c d show ?thesis by blast
  qed
  have V: "filename g = lit ''video'' @ lit ''-'' @ dec (now_video clk) @ lit ''-'' @
         sanitizeFilename (basename P (originalname g) (extname P (originalname g))) @
         extname P (originalname g) \<and>
       map_of (temp s) (filename g) \<noteq> None \<and>
       map_of (temp s') (filename g) = None \<and>
       read_file s' dir (filename g) = map_option Bytes (map_of (temp s) (filename g)) \<and>
       stored_ref s' dir (lit ''video'') =
         Some (JStr (lit ''/uploads/'' @ dir @ lit ''/'' @ filename g))"
    if e: "video req = Some g" for g
  proof -
    from mf(2) [OF e] have
      vn: "filename g = multer_filename P (lit ''video'') (now_video clk) (originalname g)"
      and a: "map_of (temp s) (filename g) \<noteq> None" by blast+
    have n: "filename g = lit ''video'' @ lit ''-'' @ dec (now_video clk) @ lit ''-'' @
         sanitizeFilename (basename P (originalname g) (extname P (originalname g))) @
         extname P (originalname g)"
      unfolding vn by (simp add: multer_filename_def Let_def)
    note rf = resolve_slot_file [OF v [unfolded e]]
    have "temp s3 = AList.delete (filename g) (temp s2)"
      using resolve_slot_temp [OF v] e by simp
    then have b: "map_of (temp s') (filename g) = None" using tmp by (simp add: delete_conv')
    have "map_of (temp s2) (filename g) = map_of (temp s1) (filename g)"
    proof (cases "thumbnail req")
      case None
      then show ?thesis using resolve_slot_temp [OF t] by simp
    next
      case (Some f)
      from mf(3) [OF Some e] show ?thesis
        using resolve_slot_temp [OF t] Some by (simp add: delete_conv')
    qed
    with rf(2) t1 have r3: "read_file s3 dir (filename g) =
        map_option Bytes (map_of (temp s) (filename g))" by auto
    with sr(3) [of "filename g"] multer_names(7) [of P] vn
    have c: "read_file s' dir (filename g) = map_option Bytes (map_of (temp s) (filename g))"
      by simp
    from rf(1) have "or_empty vp = lit ''/uploads/'' @ dir @ lit ''/'' @ filename g"
      by (simp add: or_empty_simps uploads_ref_not_Nil)
    with sr(2) have d: "stored_ref s' dir (lit ''video'') =
        Some (JStr (lit ''/uploads/'' @ dir @ lit ''/'' @ filename g))" by simp
    from n a b c d show ?thesis by blast
  qed
  show ?thesis
    by (intro conjI allI impI) (use T V in \<open>blast+\<close>)
  qed
qed

text \<open>The equations that evaluate the sample path library.\<close>

lemmas run_path = posix_path_def posix_extname_def posix_basename_def last_component_def

text \<open>
  C10.  The stored name of an upload is the slot, the timestamp and the sanitized basename,
  followed by the extension as \<^verbatim>\<open>path.extname\<close> returned it.  Hence a code unit of the
  extension outside \<^verbatim>\<open>[A-Za-z0-9_.-]\<close> is a code unit of the stored name, and the stored
  name stays inside the class exactly when the extension does.
\<close>

theorem extension_is_not_sanitized:
  "multer_filename P fileType now original =
     fileType @ lit ''-'' @ dec now @ lit ''-'' @
     sanitizeFilename (basename P original (extname P original)) @ extname P original \<and>
   (\<not> list_all allowed (extname P original) \<longrightarrow>
      \<not> list_all allowed (multer_filename P fileType now original)) \<and>
   (list_all allowed fileType \<and> list_all allowed (extname P original) \<longrightarrow>
      list_all allowed (multer_filename P fileType now original))"
proof -
  have "list_all allowed (lit ''-'')" by (simp add: lit_def allowed_def)
  then show ?thesis
    by (simp add: multer_filename_def Let_def dec_allowed sanitizeFilename_allowed)
qed

lemma sample_thumbnail_name:
  "multer_filename posix_path (lit ''thumbnail'') 1700000000001 (lit ''my pic.p g'') =
     lit ''thumbnail-1700000000001-my_pic.p g''"
  by (simp add: multer_filename_def run_path dec.simps run_sanitize)

theorem extension_is_not_sanitized_witness:
  "extname posix_path (lit ''my pic.p g'') = lit ''.p g'' \<and>
   multer_filename posix_path (lit ''thumbnail'') 1700000000001 (lit ''my pic.p g'') =
     lit ''thumbnail-1700000000001-my_pic.p g'' \<and>
   \<not> list_all allowed
       (multer_filename posix_path (lit ''thumbnail'') 1700000000001 (lit ''my pic.p g''))"
proof -
  have e: "extname posix_path (lit ''my pic.p g'') = lit ''.p g''"
    by (simp add: run_path lit_def cu_def)
  have "\<not> list_all allowed (lit ''.p g'')"
    by (simp add: allowed_def lit_def cu_def)
  with e have "\<not> list_all allowed (extname posix_path (lit ''my pic.p g''))" by simp
  moreover have "\<not> list_all allowed (extname posix_path (lit ''my pic.p g'')) \<longrightarrow>
      \<not> list_all allowed
        (multer_filename posix_path (lit ''thumbnail'') 1700000000001 (lit ''my pic.p g''))"
    using extension_is_not_sanitized
      [of posix_path "lit ''thumbnail''" 1700000000001 "lit ''my pic.p g''"]
    by (elim conjE)
  ultimately show ?thesis using e sample_thumbnail_name by blast
qed

lemma file_request_facts:
  "truthy (title file_request)" "truthy (description file_request)"
  "createMovieFolderName (now_folder sample_clock) (or_empty (title file_request)) =
     lit ''1700000000003-a''"
  by (simp_all add: file_request_def sample_clock_def truthy_def or_empty_def
      createMovieFolderName_def dec.simps run_sanitize)

lemma file_request_stored: "multer_stored posix_path sample_clock file_request file_fs"
proof -
  have "multer_filename posix_path (lit ''thumbnail'') (now_thumbnail sample_clock)
      (lit ''my pic.p g'') = lit ''thumbnail-1700000000001-my_pic.p g''"
    using sample_thumbnail_name by (simp add: sample_clock_def)
  then show ?thesis
    by (simp add: multer_stored_def stored_file_def file_request_def file_fs_def)
qed

lemma sample_ref:
  "lit ''/uploads/'' @ lit ''1700000000003-a'' @ lit ''/'' @
     lit ''thumbnail-1700000000001-my_pic.p g'' =
   lit ''/uploads/1700000000003-a/thumbnail-1700000000001-my_pic.p g''"
  by (simp add: lit_def)

theorem slot_source_priority_witness:
  "stored_ref (snd (upload_handler sample_clock file_request file_fs))
     (lit ''1700000000003-a'') (lit ''thumbnail'') =
     Some (JStr (lit ''/uploads/1700000000003-a/thumbnail-1700000000001-my_pic.p g'')) \<and>
   read_file (snd (upload_handler sample_clock file_request file_fs))
     (lit ''1700000000003-a'') (lit ''thumbnail-url.txt'') = None \<and>
   stored_ref (snd (upload_handler sample_clock file_request file_fs))
     (lit ''1700000000003-a'') (lit ''video'') =
     Some (JStr (lit ''http://example.org/v.mp4'')) \<and>
   read_file (snd (upload_handler sample_clock file_request file_fs))
     (lit ''1700000000003-a'') (lit ''video-url.txt'') =
     Some (Text (lit ''http://example.org/v.mp4''))"
proof -
  let ?f = "\<lparr>fieldname = lit ''thumbnail'', originalname = lit ''my pic.p g'',
             filename = lit ''thumbnail-1700000000001-my_pic.p g''\<rparr>"
  note th = slot_source_priority [of file_request posix_path sample_clock file_fs,
      OF file_request_facts(1,2) file_request_stored, unfolded file_request_facts(3)]
  have 1: "thumbnail file_request = Some ?f" by (simp add: file_request_def)
  have 2: "video file_request = None \<and>
      videoURL file_request = Some (lit ''http://example.org/v.mp4'') \<and>
      lit ''http://example.org/v.mp4'' \<noteq> []"
    by (simp add: file_request_def lit_def)
  have r: "read_file file_fs (lit ''1700000000003-a'') (lit ''thumbnail-url.txt'') = None"
    by (simp add: read_file_def file_fs_def)
  from th 1 have "stored_ref (snd (upload_handler sample_clock file_request file_fs))
     (lit ''1700000000003-a'') (lit ''thumbnail'') =
     Some (JStr (lit ''/uploads/'' @ lit ''1700000000003-a'' @ lit ''/'' @ filename ?f)) \<and>
     read_file (snd (upload_handler sample_clock file_request file_fs))
       (lit ''1700000000003-a'') (lit ''thumbnail-url.txt'') =
     read_file file_fs (lit ''1700000000003-a'') (lit ''thumbnail-url.txt'')"
    by blast
  moreover from th 2 have
    "stored_ref (snd (upload_handler sample_clock file_request file_fs))
       (lit ''1700000000003-a'') (lit ''video'') =
       Some (JStr (lit ''http://example.org/v.mp4'')) \<and>
     read_file (snd (upload_handler sample_clock file_request file_fs))
       (lit ''1700000000003-a'') (lit ''video-url.txt'') =
       Some (Text (lit ''http://example.org/v.mp4''))"
    by blast
  ultimately show ?thesis unfolding upfile.select_convs sample_ref r by blast
qed

theorem uploaded_file_is_moved_witness:
  "map_of (temp file_fs) (lit ''thumbnail-1700000000001-my_pic.p g'') =
     Some [137, 80, 78, 71] \<and>
   map_of (temp (snd (upload_handler sample_clock file_request file_fs)))
     (lit ''thumbnail-1700000000001-my_pic.p g'') = None \<and>
   read_file (snd (upload_handler sample_clock file_request file_fs))
     (lit ''1700000000003-a'') (lit ''thumbnail-1700000000001-my_pic.p g'') =
     Some (Bytes [137, 80, 78, 71]) \<and>
   stored_ref (snd (upload_handler sample_clock file_request file_fs))
     (lit ''1700000000003-a'') (lit ''thumbnail'') =
     Some (JStr (lit ''/uploads/1700000000003-a/thumbnail-1700000000001-my_pic.p g''))"
proof -
  let ?f = "\<lparr>fieldname = lit ''thumbnail'', originalname = lit ''my pic.p g'',
             filename = lit ''thumbnail-1700000000001-my_pic.p g''\<rparr>"
  let ?n = "lit ''thumbnail-1700000000001-my_pic.p g''"
  note th = uploaded_file_is_moved [of file_request posix_path sample_clock file_fs,
      OF file_request_facts(1,2) file_request_stored, unfolded file_request_facts(3)]
  have 1: "thumbnail file_request = Some ?f" by (simp add: file_request_def)
  have a: "map_of (temp file_fs) ?n = Some [137, 80, 78, 71]"
    by (simp add: file_fs_def)
  from th 1 have
    "map_of (temp (snd (upload_handler sample_clock file_request file_fs))) (filename ?f) = None \<and>
     read_file (snd (upload_handler sample_clock file_request file_fs))
       (lit ''1700000000003-a'') (filename ?f) =
       map_option Bytes (map_of (temp file_fs) (filename ?f)) \<and>
     stored_ref (snd (upload_handler sample_clock file_request file_fs))
       (lit ''1700000000003-a'') (lit ''thumbnail'') =
       Some (JStr (lit ''/uploads/'' @ lit ''1700000000003-a'' @ lit ''/'' @ filename ?f))"
    by blast
  then show ?thesis unfolding upfile.select_convs sample_ref a using a by simp
qed

end
